theory Spec2Isabelle
  imports Main
begin

section \<open>Engine lifecycle and job execution of comfy-pack (core/run.py)\<close>

text \<open>
  The module \<^verbatim>\<open>comfy_pack/core/run.py\<close> launches a ComfyUI engine as a subprocess,
  probes it over HTTP until it is ready, submits a workflow and polls for its completion.
  Everything it does is an effect on the outside world, so the embedding threads an
  explicit world through every function:

  \<^item> the \<^emph>\<open>environment\<close> (record \<open>env\<close>) is the part of the world the program does not
    control: what a socket connect, an HTTP call, a process spawn, a random draw answers.
    Every answer is indexed by the number of effects performed so far, so an environment
    is an arbitrary deterministic script;
  \<^item> the \<^emph>\<open>world\<close> (record \<open>world\<close>) is what the program changes: the clock, the log
    of effects performed (oldest first), the object store and the set of processes the
    program has spawned and not yet seen exit.

  Time is counted in milliseconds. The clock only moves forward: each effect takes the
  latency the environment gives it, and \<^verbatim>\<open>time.sleep(1)\<close> takes at least 1000 ms.
  The source measures time in floating point seconds: where a deadline is met to the
  millisecond, the environment says which way the rounded comparison goes.
  An HTTP request is made without a timeout, so it need not return: a function that makes
  requests gives \<open>None\<close> in place of its result when one of them is never answered, together
  with the world in which it is stuck.
  Exceptions are values of type \<open>exn\<close>; only subclasses of \<^verbatim>\<open>Exception\<close> are modelled.
\<close>

subsection \<open>Values\<close>

text \<open>What \<^verbatim>\<open>json.loads\<close> returns (floats left out); an object is the list of its items.\<close>

datatype json =
    JNull
  | JBool bool
  | JInt int
  | JStr string
  | JArr "json list"
  | JObj "(string \<times> json) list"

text \<open>
  \<open>RuntimeError prefix e\<close> is \<^verbatim>\<open>RuntimeError(f"{prefix}{e}")\<close> raised inside the handler
  of \<open>e\<close>: its message is the prefix followed by the text of \<open>e\<close>, and \<open>e\<close> is its context.
  \<open>ValueError\<close> stands for its subclasses too: what \<^verbatim>\<open>json.loads\<close> raises is one of
  them (\<^verbatim>\<open>JSONDecodeError\<close>, or \<^verbatim>\<open>UnicodeDecodeError\<close> for bytes that are not UTF-8).
\<close>

datatype exn =
    TimeoutError string
  | RuntimeError string exn
  | KeyError string
  | TypeError
  | ValueError
  | URLError string
  | HTTPError int
  | OSError string

text \<open>\<^verbatim>\<open>isinstance(e, TimeoutError)\<close>\<close>

fun isinstance_TimeoutError :: "exn \<Rightarrow> bool" where
  "isinstance_TimeoutError (TimeoutError m) = True"
| "isinstance_TimeoutError e = False"

text \<open>A \<^verbatim>\<open>pathlib.Path\<close>, kept symbolic: \<open>PathJoin p s\<close> is \<^verbatim>\<open>p / s\<close>.\<close>

datatype path = Path string | PathJoin path string

text \<open>The truth value Python gives a value in \<^verbatim>\<open>if v:\<close>.\<close>

fun truthy :: "json \<Rightarrow> bool" where
  "truthy JNull = False"
| "truthy (JBool b) = b"
| "truthy (JInt i) = (i \<noteq> 0)"
| "truthy (JStr s) = (s \<noteq> [])"
| "truthy (JArr xs) = (xs \<noteq> [])"
| "truthy (JObj kvs) = (kvs \<noteq> [])"

text \<open>\<^verbatim>\<open>v[k]\<close> for a string key: KeyError on a dict without the key, TypeError on anything
  that is not a dict.\<close>

fun subscript :: "json \<Rightarrow> string \<Rightarrow> exn + json" where
  "subscript (JObj kvs) k = (case map_of kvs k of None \<Rightarrow> Inl (KeyError k) | Some v \<Rightarrow> Inr v)"
| "subscript v k = Inl TypeError"

text \<open>\<^verbatim>\<open>str(n)\<close> for an integer.\<close>

definition digit_char :: "nat \<Rightarrow> char" where
  "digit_char n = ''0123456789'' ! n"

function str_nat :: "nat \<Rightarrow> string" where
  "str_nat n = (if n < 10 then [digit_char n] else str_nat (n div 10) @ [digit_char (n mod 10)])"
  by pat_completeness auto
termination
  by (relation "measure id") auto

definition str_int :: "int \<Rightarrow> string" where
  "str_int i = (if i < 0 then CHR ''-'' # str_nat (nat (- i)) else str_nat (nat i))"

subsection \<open>Effects, environment and world\<close>

type_synonym pid = nat
type_synonym addr = nat

datatype conn_result = Connected | Refused | ConnFailed

text \<open>The \<^verbatim>\<open>stdout\<close>/\<^verbatim>\<open>stderr\<close> arguments of \<^verbatim>\<open>subprocess.Popen\<close>: \<open>INHERIT\<close> is \<^verbatim>\<open>None\<close>.\<close>

datatype stdio = PIPE | DEVNULL | INHERIT

datatype http_request = GET string | POST string "(string \<times> string) list" json

text \<open>
  The outcome of \<^verbatim>\<open>urlopen\<close> and of reading the body, when there is one: an exception,
  or a body, which is \<open>None\<close> when \<^verbatim>\<open>json.loads\<close> cannot parse it.
\<close>

datatype http_result = HttpError exn | HttpBody "json option"

datatype event =
    EvConnect string int conn_result
  | EvRandint int
  | EvPopen "string list" string path stdio stdio "exn + pid"
  | EvHttp http_request http_result
  | EvSleep nat
  | EvTerminate pid
  | EvWait pid nat bool
  | EvKill pid
  | EvMkdir path "exn option"
  | EvUuid string
  | EvPopulate path "(string \<times> json) list"
  | EvRetrieve path

text \<open>
  The environment. \<open>http i req\<close> is \<open>None\<close> when the request made as effect number \<open>i\<close> is
  never answered. \<open>rounds_down st t\<close> says that the floating point difference of the clock
  readings \<open>t\<close> and \<open>st\<close> comes out below the exact one.
\<close>

record env =
  connect_result :: "nat \<Rightarrow> string \<Rightarrow> int \<Rightarrow> conn_result"
  rand :: "nat \<Rightarrow> nat"
  spawn :: "nat \<Rightarrow> exn + pid"
  exit_delay :: "nat \<Rightarrow> nat option"
  http :: "nat \<Rightarrow> http_request \<Rightarrow> http_result option"
  latency :: "nat \<Rightarrow> nat"
  rounds_down :: "nat \<Rightarrow> nat \<Rightarrow> bool"
  uuid4 :: "nat \<Rightarrow> string"
  mkdir_result :: "nat \<Rightarrow> path \<Rightarrow> exn option"
  urlparse :: "string \<Rightarrow> exn + (string option \<times> int option)"
  repr :: "json \<Rightarrow> string"
  populate_workflow :: "nat \<Rightarrow> json \<Rightarrow> path \<Rightarrow> (string \<times> json) list \<Rightarrow> json \<times> (exn + json)"
  retrieve_workflow_outputs :: "nat \<Rightarrow> json \<Rightarrow> path \<Rightarrow> exn + json"

record world =
  clock :: nat
  trace :: "event list"
  heap :: "json list"
  alive :: "pid list"

text \<open>One effect: it takes its latency and is logged.\<close>

definition tick :: "env \<Rightarrow> event \<Rightarrow> world \<Rightarrow> world" where
  "tick E ev w = w\<lparr>clock := clock w + latency E (length (trace w)), trace := trace w @ [ev]\<rparr>"

text \<open>\<^verbatim>\<open>time.sleep(secs)\<close>: the clock moves by at least \<open>secs\<close> seconds.\<close>

definition sleep :: "env \<Rightarrow> nat \<Rightarrow> world \<Rightarrow> world" where
  "sleep E secs w =
     w\<lparr>clock := clock w + 1000 * secs + latency E (length (trace w)),
       trace := trace w @ [EvSleep secs]\<rparr>"

text \<open>\<^verbatim>\<open>request.urlopen(req)\<close>, called without a timeout: \<open>None\<close> when it never returns.\<close>

definition urlopen :: "env \<Rightarrow> http_request \<Rightarrow> world \<Rightarrow> http_result option \<times> world" where
  "urlopen E req w =
     (case http E (length (trace w)) req of
        None \<Rightarrow> (None, w)
      | Some r \<Rightarrow> (Some r, tick E (EvHttp req r) w))"

text \<open>
  The loop test \<^verbatim>\<open>time.time() - start_time < timeout\<close>, for the start time \<open>st\<close> and the
  timeout \<open>tmo\<close> in seconds: when exactly \<open>tmo\<close> seconds have passed, it holds if the
  floating point difference is rounded down.
\<close>

definition time_remains :: "env \<Rightarrow> nat \<Rightarrow> int \<Rightarrow> world \<Rightarrow> bool" where
  "time_remains E st tmo w =
     (int (clock w) - int st < tmo * 1000
      \<or> (int (clock w) - int st = tmo * 1000 \<and> rounds_down E st (clock w)))"

text \<open>\<^verbatim>\<open>random.randint(10000, 65535)\<close>\<close>

definition randint :: "env \<Rightarrow> world \<Rightarrow> int \<times> world" where
  "randint E w = (let r = 10000 + int (rand E (length (trace w)) mod 55536) in (r, tick E (EvRandint r) w))"

definition mkdir :: "env \<Rightarrow> path \<Rightarrow> world \<Rightarrow> exn option \<times> world" where
  "mkdir E p w = (let r = mkdir_result E (length (trace w)) p in (r, tick E (EvMkdir p r) w))"

text \<open>\<^verbatim>\<open>str(uuid.uuid4())\<close>\<close>

definition uuid_str :: "env \<Rightarrow> world \<Rightarrow> string \<times> world" where
  "uuid_str E w = (let u = uuid4 E (length (trace w)) in (u, tick E (EvUuid u) w))"

text \<open>\<^verbatim>\<open>copy.deepcopy\<close> of the object at an address: a fresh object with the same contents.\<close>

definition deepcopy :: "addr \<Rightarrow> world \<Rightarrow> addr \<times> world" where
  "deepcopy a w = (length (heap w), w\<lparr>heap := heap w @ [heap w ! a]\<rparr>)"

subsection \<open>Port check and readiness probe\<close>

text \<open>
  \<^verbatim>\<open>_is_port_in_use\<close>: a connection that is accepted means the port is in use, a refused
  one that it is free, and any other failure counts as in use. Ports are integers here; the
  source also takes the port as a string, which this function converts with \<^verbatim>\<open>int\<close>.
\<close>

definition is_port_in_use :: "env \<Rightarrow> int \<Rightarrow> string \<Rightarrow> world \<Rightarrow> bool \<times> world" where
  "is_port_in_use E p h w =
     (let r = connect_result E (length (trace w)) h p;
          w1 = tick E (EvConnect h p r) w
      in case r of
           Connected \<Rightarrow> (True, w1)
         | Refused \<Rightarrow> (False, w1)
         | ConnFailed \<Rightarrow> (True, w1))"

definition mappings_url :: "int \<Rightarrow> string" where
  "mappings_url p = ''http://127.0.0.1:'' @ str_int p @ ''/api/customnode/getmappings'' @ ''?'' @ ''mode=nickname''"

definition object_info_url :: "int \<Rightarrow> string" where
  "object_info_url p = ''http://127.0.0.1:'' @ str_int p @ ''/api/object_info''"

text \<open>\<^verbatim>\<open>_probe_comfyui_server\<close>: two requests in order; the bodies are not read.\<close>

definition probe_comfyui_server :: "env \<Rightarrow> int \<Rightarrow> world \<Rightarrow> (exn + unit) option \<times> world" where
  "probe_comfyui_server E p w =
     (case urlopen E (GET (mappings_url p)) w of
        (None, w1) \<Rightarrow> (None, w1)
      | (Some (HttpError e), w1) \<Rightarrow> (Some (Inl e), w1)
      | (Some (HttpBody b), w1) \<Rightarrow>
          (case urlopen E (GET (object_info_url p)) w1 of
             (None, w2) \<Rightarrow> (None, w2)
           | (Some (HttpError e), w2) \<Rightarrow> (Some (Inl e), w2)
           | (Some (HttpBody b'), w2) \<Rightarrow> (Some (Inr ()), w2)))"

text \<open>
  The loop of \<^verbatim>\<open>_wait_for_startup\<close>; \<open>st\<close> is \<^verbatim>\<open>start_time\<close>, \<open>tmo\<close> the timeout in
  seconds. The deadline is tested before each probe only.
\<close>

function wait_loop :: "env \<Rightarrow> int \<Rightarrow> nat \<Rightarrow> int \<Rightarrow> world \<Rightarrow> (exn + unit) option \<times> world" where
  "wait_loop E p st tmo w =
     (if time_remains E st tmo w then
        (case probe_comfyui_server E p w of
           (None, w1) \<Rightarrow> (None, w1)
         | (Some (Inr u), w1) \<Rightarrow> (Some (Inr ()), w1)
         | (Some (Inl e), w1) \<Rightarrow> wait_loop E p st tmo (sleep E 1 w1))
      else (Some (Inl (TimeoutError ''ComfyUI server failed to start'')), w))"
  by pat_completeness auto
termination
proof (relation "measure (\<lambda>(E, p, st, tmo, w). nat (tmo * 1000 + 1 - (int (clock w) - int st)))", goal_cases)
  case 1
  show ?case by simp
next
  case (2 E p st tmo w x w1 y e)
  have "clock w \<le> clock w1"
    using 2(2)[symmetric]
    by (auto simp: probe_comfyui_server_def urlopen_def tick_def
        split: option.splits http_result.splits)
  moreover have "int (clock w) - int st \<le> tmo * 1000"
    using 2(1) by (auto simp: time_remains_def)
  ultimately show ?case
    by (simp add: sleep_def)
qed

text \<open>\<^verbatim>\<open>_wait_for_startup(host, port, timeout)\<close>; the host is not used by the source.\<close>

definition wait_for_startup ::
  "env \<Rightarrow> string \<Rightarrow> int \<Rightarrow> int \<Rightarrow> world \<Rightarrow> (exn + unit) option \<times> world" where
  "wait_for_startup E h p tmo w = wait_loop E p (clock w) tmo w"

subsection \<open>The server object\<close>

text \<open>The fields of \<^verbatim>\<open>ComfyUIServer\<close>; \<open>proc\<close> is \<open>None\<close> while no engine process is held.\<close>

record server =
  workspace :: path
  input_dir :: path
  port :: int
  verbose :: int
  host :: string
  proc :: "pid option"

text \<open>
  \<^verbatim>\<open>subprocess.Popen\<close>: the environment passes \<^verbatim>\<open>COMFY_PORT\<close>; a spawned process is
  recorded as alive.
\<close>

definition popen ::
  "env \<Rightarrow> string list \<Rightarrow> string \<Rightarrow> path \<Rightarrow> stdio \<Rightarrow> stdio \<Rightarrow> world \<Rightarrow> (exn + pid) \<times> world" where
  "popen E cmd comfy_port cwd out err w =
     (let r = spawn E (length (trace w));
          w1 = tick E (EvPopen cmd comfy_port cwd out err r) w
      in case r of
           Inl e \<Rightarrow> (Inl e, w1)
         | Inr c \<Rightarrow> (Inr c, w1\<lparr>alive := c # alive w1\<rparr>))"

text \<open>
  \<^verbatim>\<open>proc.wait(timeout=secs)\<close>: the process exits in time, or \<^verbatim>\<open>TimeoutExpired\<close> is
  raised after \<open>secs\<close> seconds (result \<open>False\<close>).
\<close>

definition proc_wait :: "env \<Rightarrow> pid \<Rightarrow> nat \<Rightarrow> world \<Rightarrow> bool \<times> world" where
  "proc_wait E c secs w =
     (case exit_delay E (length (trace w)) of
        None \<Rightarrow>
          (False, w\<lparr>clock := clock w + 1000 * secs, trace := trace w @ [EvWait c secs False]\<rparr>)
      | Some d \<Rightarrow>
          if d < 1000 * secs then
            (True, w\<lparr>clock := clock w + d, trace := trace w @ [EvWait c secs True],
                     alive := removeAll c (alive w)\<rparr>)
          else
            (False, w\<lparr>clock := clock w + 1000 * secs, trace := trace w @ [EvWait c secs False]\<rparr>))"

definition kill :: "env \<Rightarrow> pid \<Rightarrow> world \<Rightarrow> world" where
  "kill E c w = (tick E (EvKill c) w)\<lparr>alive := removeAll c (alive w)\<rparr>"

text \<open>\<^verbatim>\<open>ComfyUIServer.stop\<close>\<close>

definition stop :: "env \<Rightarrow> server \<Rightarrow> world \<Rightarrow> server \<times> world" where
  "stop E s w =
     (case proc s of
        None \<Rightarrow> (s, w)
      | Some c \<Rightarrow>
          (let w1 = tick E (EvTerminate c) w
           in case proc_wait E c 5 w1 of
                (True, w2) \<Rightarrow> (s\<lparr>proc := None\<rparr>, w2)
              | (False, w2) \<Rightarrow> (s\<lparr>proc := None\<rparr>, kill E c w2)))"

text \<open>
  The loop \<^verbatim>\<open>while _is_port_in_use(self.port, self.host): self.port = random.randint(...)\<close>.
  Nothing bounds it: where every candidate is in use it does not return (\<open>None\<close>).
\<close>

partial_function (option) find_port :: "env \<Rightarrow> server \<Rightarrow> world \<Rightarrow> (server \<times> world) option" where
  "find_port E s w =
     (case is_port_in_use E (port s) (host s) w of
        (b, w1) \<Rightarrow>
          if b then (case randint E w1 of (r, w2) \<Rightarrow> find_port E (s\<lparr>port := r\<rparr>) w2)
          else Some (s, w1))"

definition command :: "server \<Rightarrow> string list" where
  "command s =
     [''python'', ''-m'', ''comfy.cli.main'']
       @ (if verbose s \<noteq> 0 then [''-'' @ replicate (nat (verbose s)) CHR ''v''] else [])"

definition stdio_of :: "server \<Rightarrow> stdio" where
  "stdio_of s = (if \<not> (verbose s \<noteq> 0) then PIPE else INHERIT)"

text \<open>
  \<^verbatim>\<open>ComfyUIServer.start\<close>; \<open>None\<close> when the port loop does not return or a readiness
  request is never answered.
\<close>

definition start :: "env \<Rightarrow> server \<Rightarrow> world \<Rightarrow> ((exn + unit) \<times> server \<times> world) option" where
  "start E s w =
     (case proc s of
        Some c \<Rightarrow> Some (Inr (), s, w)
      | None \<Rightarrow>
          (case find_port E s w of
             None \<Rightarrow> None
           | Some (s1, w1) \<Rightarrow>
               (case popen E (command s1) (str_int (port s1)) (workspace s1)
                       (stdio_of s1) (stdio_of s1) w1 of
                  (Inl e, w2) \<Rightarrow> Some (Inl e, s1, w2)
                | (Inr c, w2) \<Rightarrow>
                    (let s2 = s1\<lparr>proc := Some c\<rparr>
                     in case wait_for_startup E (host s2) (port s2) 1800 w2 of
                          (None, w3) \<Rightarrow> None
                        | (Some (Inr u), w3) \<Rightarrow> Some (Inr (), s2, w3)
                        | (Some (Inl e), w3) \<Rightarrow>
                            (case stop E s2 w3 of
                               (s3, w4) \<Rightarrow>
                                 Some (Inl (RuntimeError ''Failed to start ComfyUI server: '' e),
                                       s3, w4))))))"

subsection \<open>Running a workflow\<close>

text \<open>
  The text an f-string gives a value; the \<^verbatim>\<open>repr\<close> of a list or a dict is left to the
  environment.
\<close>

definition format_value :: "env \<Rightarrow> json \<Rightarrow> string" where
  "format_value E v =
     (case v of
        JStr x \<Rightarrow> x
      | JInt i \<Rightarrow> str_int i
      | JNull \<Rightarrow> ''None''
      | JBool b \<Rightarrow> (if b then ''True'' else ''False'')
      | JArr xs \<Rightarrow> repr E v
      | JObj kvs \<Rightarrow> repr E v)"

definition prompt_url :: "string \<Rightarrow> int \<Rightarrow> string" where
  "prompt_url h p = ''http://'' @ h @ '':'' @ str_int p @ ''/prompt''"

definition history_url :: "env \<Rightarrow> string \<Rightarrow> int \<Rightarrow> json \<Rightarrow> string" where
  "history_url E h p prompt_id =
     ''http://'' @ h @ '':'' @ str_int p @ ''/history/'' @ format_value E prompt_id"

text \<open>
  What one fetch of the history record tells the loop: \<^verbatim>\<open>json.loads(resp.read())\<close> and
  \<^verbatim>\<open>history["outputs"]\<close> raise, or the outputs are there and have a truth value.
\<close>

definition outputs_ready :: "http_result \<Rightarrow> exn + bool" where
  "outputs_ready res =
     (case res of
        HttpError e \<Rightarrow> Inl e
      | HttpBody None \<Rightarrow> Inl ValueError
      | HttpBody (Some history) \<Rightarrow>
          (case subscript history ''outputs'' of
             Inl e \<Rightarrow> Inl e
           | Inr outputs \<Rightarrow> Inr (truthy outputs)))"

text \<open>
  The polling loop of \<^verbatim>\<open>run_workflow\<close>: \<open>Inr ()\<close> is the \<^verbatim>\<open>break\<close>, the
  \<^verbatim>\<open>TimeoutError\<close> is the \<^verbatim>\<open>else\<close> branch of the \<^verbatim>\<open>while\<close>.
\<close>

function poll_loop :: "env \<Rightarrow> string \<Rightarrow> nat \<Rightarrow> int \<Rightarrow> world \<Rightarrow> (exn + unit) option \<times> world" where
  "poll_loop E url st tmo w =
     (if time_remains E st tmo w then
        (case urlopen E (GET url) w of
           (None, w1) \<Rightarrow> (None, w1)
         | (Some res, w1) \<Rightarrow>
             (case outputs_ready res of
                Inl e \<Rightarrow> (Some (Inl e), w1)
              | Inr b \<Rightarrow>
                  if b then (Some (Inr ()), w1)
                  else poll_loop E url st tmo (sleep E 1 w1)))
      else (Some (Inl (TimeoutError ''Workflow execution timed out'')), w))"
  by pat_completeness auto
termination
proof (relation "measure (\<lambda>(E, url, st, tmo, w). nat (tmo * 1000 + 1 - (int (clock w) - int st)))", goal_cases)
  case 1
  show ?case by simp
next
  case (2 E url st tmo w x w1 res b)
  have "clock w \<le> clock w1"
    using 2(2)[symmetric]
    by (auto simp: urlopen_def tick_def split: option.splits)
  moreover have "int (clock w) - int st \<le> tmo * 1000"
    using 2(1) by (auto simp: time_remains_def)
  ultimately show ?case
    by (simp add: sleep_def)
qed

definition retrieve :: "env \<Rightarrow> json \<Rightarrow> path \<Rightarrow> world \<Rightarrow> (exn + json) \<times> world" where
  "retrieve E content d w =
     (retrieve_workflow_outputs E (length (trace w)) content d, tick E (EvRetrieve d) w)"

text \<open>
  The job identifier in the response to the submission:
  \<^verbatim>\<open>json.loads(resp.read())["prompt_id"]\<close>.
\<close>

definition prompt_id_of :: "http_result \<Rightarrow> exn + json" where
  "prompt_id_of res =
     (case res of
        HttpError e \<Rightarrow> Inl e
      | HttpBody None \<Rightarrow> Inl ValueError
      | HttpBody (Some body) \<Rightarrow> subscript body ''prompt_id'')"

definition submit_request :: "string \<Rightarrow> int \<Rightarrow> json \<Rightarrow> http_request" where
  "submit_request h p content =
     POST (prompt_url h p) [(''Content-Type'', ''application/json'')] (JObj [(''prompt'', content)])"

text \<open>The body of the \<^verbatim>\<open>try\<close> block of \<^verbatim>\<open>run_workflow\<close>: submit, poll, fetch the outputs.\<close>

definition submit_and_poll ::
  "env \<Rightarrow> string \<Rightarrow> int \<Rightarrow> json \<Rightarrow> path \<Rightarrow> int \<Rightarrow> world \<Rightarrow> (exn + json) option \<times> world" where
  "submit_and_poll E h p content d tmo w =
     (case urlopen E (submit_request h p content) w of
        (None, w1) \<Rightarrow> (None, w1)
      | (Some res, w1) \<Rightarrow>
          (case prompt_id_of res of
             Inl e \<Rightarrow> (Some (Inl e), w1)
           | Inr prompt_id \<Rightarrow>
               (case poll_loop E (history_url E h p prompt_id) (clock w1) tmo w1 of
                  (None, w2) \<Rightarrow> (None, w2)
                | (Some (Inl e), w2) \<Rightarrow> (Some (Inl e), w2)
                | (Some (Inr u), w2) \<Rightarrow>
                    (case retrieve E content d w2 of (r, w3) \<Rightarrow> (Some r, w3)))))"

text \<open>
  The output directory of \<^verbatim>\<open>run_workflow\<close>: the one given, or a fresh one under the
  workspace, which is created.
\<close>

definition choose_output_dir ::
  "env \<Rightarrow> path option \<Rightarrow> path \<Rightarrow> world \<Rightarrow> (exn + path) \<times> world" where
  "choose_output_dir E output_dir ws w =
     (case output_dir of
        Some d \<Rightarrow> (Inr d, w)
      | None \<Rightarrow>
          (case uuid_str E w of
             (u, w1) \<Rightarrow>
               (let d = PathJoin (PathJoin ws ''output'') u
                in case mkdir E d w1 of
                     (Some e, w2) \<Rightarrow> (Inl e, w2)
                   | (None, w2) \<Rightarrow> (Inr d, w2))))"

text \<open>
  \<^verbatim>\<open>run_workflow\<close>. The workflow is passed by reference (an address of the store).
  \<^verbatim>\<open>populate_workflow\<close> is not part of the sources at hand: it is a parameter of the
  environment that, given the contents of the object it receives, says what the object
  holds afterwards and what is raised or returned.
\<close>

definition run_workflow ::
  "env \<Rightarrow> string \<Rightarrow> int \<Rightarrow> addr \<Rightarrow> path option \<Rightarrow> int \<Rightarrow> int \<Rightarrow> path \<Rightarrow> (string \<times> json) list
     \<Rightarrow> world \<Rightarrow> (exn + json) option \<times> world" where
  "run_workflow E h p workflow output_dir tmo vb ws kwargs w =
     (case choose_output_dir E output_dir ws w of
        (Inl e, w1) \<Rightarrow> (Some (Inl e), w1)
      | (Inr d, w1) \<Rightarrow>
          (case deepcopy workflow w1 of
             (c, w2) \<Rightarrow>
               (case populate_workflow E (length (trace w2)) (heap w2 ! c) d kwargs of
                  (mutated, res) \<Rightarrow>
                    (let w3 = (tick E (EvPopulate d kwargs) w2)\<lparr>heap := (heap w2)[c := mutated]\<rparr>
                     in case res of
                          Inl e \<Rightarrow> (Some (Inl e), w3)
                        | Inr content \<Rightarrow>
                            (case submit_and_poll E h p content d tmo w3 of
                               (None, w4) \<Rightarrow> (None, w4)
                             | (Some (Inl e), w4) \<Rightarrow>
                                 if isinstance_TimeoutError e then (Some (Inl e), w4)
                                 else (Some (Inl (RuntimeError ''Workflow execution failed: '' e)), w4)
                             | (Some (Inr v), w4) \<Rightarrow> (Some (Inr v), w4))))))"

text \<open>
  \<^verbatim>\<open>ComfyUIServer.execute_workflow\<close>. The inputs are passed as \<^verbatim>\<open>**inputs\<close> next to
  seven named arguments: an input of one of those names is a \<^verbatim>\<open>TypeError\<close> of the call.
\<close>

definition execute_workflow ::
  "env \<Rightarrow> server \<Rightarrow> addr \<Rightarrow> (string \<times> json) list \<Rightarrow> string \<Rightarrow> int \<Rightarrow> world
     \<Rightarrow> (exn + json) option \<times> world" where
  "execute_workflow E s workflow inputs session_id tmo w =
     (case (if session_id = [] then uuid_str E w else (session_id, w)) of
        (sid, w1) \<Rightarrow>
          (let output_dir = PathJoin (PathJoin (workspace s) ''output'') sid
           in case mkdir E output_dir w1 of
                (Some e, w2) \<Rightarrow> (Some (Inl e), w2)
              | (None, w2) \<Rightarrow>
                  if \<exists>k \<in> set (map fst inputs).
                       k \<in> set [''host'', ''port'', ''workflow'', ''output_dir'', ''timeout'',
                                ''verbose'', ''workspace'']
                  then (Some (Inl (RuntimeError ''Workflow execution failed: '' TypeError)), w2)
                  else
                    (case run_workflow E (host s) (port s) workflow (Some output_dir) tmo
                            (verbose s) (workspace s) inputs w2 of
                       (None, w3) \<Rightarrow> (None, w3)
                     | (Some (Inl e), w3) \<Rightarrow>
                         (Some (Inl (RuntimeError ''Workflow execution failed: '' e)), w3)
                     | (Some (Inr v), w3) \<Rightarrow> (Some (Inr v), w3))))"

text \<open>
  The body of the \<^verbatim>\<open>try\<close> block of \<^verbatim>\<open>execute_remote_workflow\<close>. Here \<^verbatim>\<open>**inputs\<close>
  stands next to four arguments only, so an input named \<^verbatim>\<open>output_dir\<close>, \<^verbatim>\<open>verbose\<close>
  or \<^verbatim>\<open>workspace\<close> becomes that parameter of \<^verbatim>\<open>run_workflow\<close>, where \<^verbatim>\<open>Path(...)\<close>
  of a value that is not a string is a \<^verbatim>\<open>TypeError\<close>.
\<close>

definition remote_call ::
  "env \<Rightarrow> string \<Rightarrow> addr \<Rightarrow> (string \<times> json) list \<Rightarrow> int \<Rightarrow> world
     \<Rightarrow> (exn + json) option \<times> world" where
  "remote_call E server_url workflow inputs tmo w =
     (case urlparse E server_url of
        Inl e \<Rightarrow> (Some (Inl e), w)
      | Inr (hostname, prt) \<Rightarrow>
          (let h = (case hostname of None \<Rightarrow> ''localhost''
                    | Some x \<Rightarrow> if x = [] then ''localhost'' else x);
               p = (case prt of None \<Rightarrow> 8188 | Some n \<Rightarrow> if n = 0 then 8188 else n);
               kwargs = filter (\<lambda>(k, v). k \<notin> set [''output_dir'', ''verbose'', ''workspace'']) inputs
           in if \<exists>k \<in> set (map fst inputs). k \<in> set [''host'', ''port'', ''workflow'', ''timeout'']
              then (Some (Inl TypeError), w)
              else
                (case map_of inputs ''output_dir'' of
                   Some (JStr x) \<Rightarrow> run_workflow E h p workflow (Some (Path x)) tmo 0 (Path ''.'') kwargs w
                 | Some (JBool b) \<Rightarrow> (Some (Inl TypeError), w)
                 | Some (JInt i) \<Rightarrow> (Some (Inl TypeError), w)
                 | Some (JArr xs) \<Rightarrow> (Some (Inl TypeError), w)
                 | Some (JObj kvs) \<Rightarrow> (Some (Inl TypeError), w)
                 | _ \<Rightarrow>
                     (case map_of inputs ''workspace'' of
                        None \<Rightarrow> run_workflow E h p workflow None tmo 0 (Path ''.'') kwargs w
                      | Some (JStr x) \<Rightarrow> run_workflow E h p workflow None tmo 0 (Path x) kwargs w
                      | Some v \<Rightarrow> (Some (Inl TypeError), w)))))"

text \<open>\<^verbatim>\<open>execute_remote_workflow\<close>\<close>

definition execute_remote_workflow ::
  "env \<Rightarrow> string \<Rightarrow> addr \<Rightarrow> (string \<times> json) list \<Rightarrow> string \<Rightarrow> int \<Rightarrow> world
     \<Rightarrow> (exn + json) option \<times> world" where
  "execute_remote_workflow E server_url workflow inputs session_id tmo w =
     (case remote_call E server_url workflow inputs tmo w of
        (None, w1) \<Rightarrow> (None, w1)
      | (Some (Inl e), w1) \<Rightarrow> (Some (Inl (RuntimeError ''Remote workflow execution failed: '' e)), w1)
      | (Some (Inr v), w1) \<Rightarrow> (Some (Inr v), w1))"

subsection \<open>Notions used in the statements\<close>

text \<open>
  \<open>n\<close> full rounds of the polling loop from the world \<open>w\<close>: in each round the loop test
  holds, the fetch of the history record is answered and reports outputs that are not
  truthy, and the loop sleeps one second. The result is the world after the \<open>n\<close>-th pause,
  and \<open>None\<close> when the run from \<open>w\<close> does not begin with \<open>n\<close> such rounds.
\<close>

fun poll_rounds :: "env \<Rightarrow> string \<Rightarrow> nat \<Rightarrow> int \<Rightarrow> nat \<Rightarrow> world \<Rightarrow> world option" where
  "poll_rounds E url st tmo 0 w = Some w"
| "poll_rounds E url st tmo (Suc n) w =
     (if time_remains E st tmo w then
        (case urlopen E (GET url) w of
           (None, w1) \<Rightarrow> None
         | (Some res, w1) \<Rightarrow>
             (case outputs_ready res of
                Inl e \<Rightarrow> None
              | Inr b \<Rightarrow> if b then None else poll_rounds E url st tmo n (sleep E 1 w1)))
      else None)"

text \<open>
  \<open>n\<close> full rounds of the readiness wait from the world \<open>w\<close>: in each round the loop test
  holds, the probe is answered and fails, and the loop sleeps one second.
\<close>

fun wait_rounds :: "env \<Rightarrow> int \<Rightarrow> nat \<Rightarrow> int \<Rightarrow> nat \<Rightarrow> world \<Rightarrow> world option" where
  "wait_rounds E p st tmo 0 w = Some w"
| "wait_rounds E p st tmo (Suc n) w =
     (if time_remains E st tmo w then
        (case probe_comfyui_server E p w of
           (None, w1) \<Rightarrow> None
         | (Some (Inr u), w1) \<Rightarrow> None
         | (Some (Inl e), w1) \<Rightarrow> wait_rounds E p st tmo n (sleep E 1 w1))
      else None)"


text \<open>
  Concrete environments and a concrete world, for the examples: in \<open>env0\<close> every port is
  free, every spawn and every request succeeds, and nothing takes time.
\<close>

definition env0 :: env where
  "env0 =
     \<lparr>connect_result = (\<lambda>i h p. Refused),
      rand = (\<lambda>i. 0),
      spawn = (\<lambda>i. Inr 4242),
      exit_delay = (\<lambda>i. Some 0),
      http = (\<lambda>i q. Some (HttpBody (Some (JObj [])))),
      latency = (\<lambda>i. 0),
      rounds_down = (\<lambda>st t. False),
      uuid4 = (\<lambda>i. ''uuid''),
      mkdir_result = (\<lambda>i d. None),
      urlparse = (\<lambda>u. Inr (None, None)),
      repr = (\<lambda>v. []),
      populate_workflow = (\<lambda>i c d kw. (c, Inr c)),
      retrieve_workflow_outputs = (\<lambda>i c d. Inr (JArr []))\<rparr>"

definition world0 :: world where
  "world0 = \<lparr>clock = 0, trace = [], heap = [JObj []], alive = []\<rparr>"

text \<open>
  The submission is answered with a job identifier; a poll that is among the first four
  effects reports empty outputs, a later one an image.
\<close>

definition env_third_poll :: env where
  "env_third_poll =
     env0\<lparr>http := (\<lambda>i q.
        case q of
          POST u hdrs b \<Rightarrow> Some (HttpBody (Some (JObj [(''prompt_id'', JStr ''abc123'')])))
        | GET u \<Rightarrow>
            if i < 4 then Some (HttpBody (Some (JObj [(''outputs'', JObj [])])))
            else Some (HttpBody (Some (JObj [(''outputs'', JObj [(''image'', JArr [JStr ''out.png''])])]))))\<rparr>"

text \<open>The submission is answered with a job identifier; every poll reports empty outputs.\<close>

definition env_never_done :: env where
  "env_never_done =
     env0\<lparr>http := (\<lambda>i q.
        case q of
          POST u hdrs b \<Rightarrow> Some (HttpBody (Some (JObj [(''prompt_id'', JStr ''abc123'')])))
        | GET u \<Rightarrow> Some (HttpBody (Some (JObj [(''outputs'', JObj [])]))))\<rparr>"


text \<open>An HTTP request of any kind, and a status poll (a GET).\<close>

fun is_http :: "event \<Rightarrow> bool" where
  "is_http (EvHttp q res) = True"
| "is_http ev = False"

fun is_poll :: "event \<Rightarrow> bool" where
  "is_poll (EvHttp (GET u) res) = True"
| "is_poll ev = False"

text \<open>How \<^verbatim>\<open>run_workflow\<close> re-raises what its \<^verbatim>\<open>try\<close> block raised.\<close>

definition reraise :: "exn \<Rightarrow> exn" where
  "reraise e = (if isinstance_TimeoutError e then e else RuntimeError ''Workflow execution failed: '' e)"

text \<open>
  The world after \<^verbatim>\<open>copy.deepcopy\<close> and \<^verbatim>\<open>populate_workflow\<close>: the copy is a new object
  at the end of the store and holds what \<^verbatim>\<open>populate_workflow\<close> left in it.
\<close>

definition populated :: "env \<Rightarrow> path \<Rightarrow> (string \<times> json) list \<Rightarrow> addr \<Rightarrow> world \<Rightarrow> world" where
  "populated E d kwargs workflow w =
     (tick E (EvPopulate d kwargs) w)
       \<lparr>heap := heap w @ [fst (populate_workflow E (length (trace w)) (heap w ! workflow) d kwargs)]\<rparr>"

text \<open>
  What \<^verbatim>\<open>execute_workflow\<close> does before \<^verbatim>\<open>run_workflow\<close> enters its \<^verbatim>\<open>try\<close> block: it
  names and creates the output directory of the session, binds the inputs as keyword
  arguments, copies the workflow and populates the copy. When all of that succeeds the
  result is the populated workflow, the output directory and the world in which the
  submission is made.
\<close>

definition reaches_submit ::
  "env \<Rightarrow> server \<Rightarrow> addr \<Rightarrow> (string \<times> json) list \<Rightarrow> string \<Rightarrow> world \<Rightarrow> (json \<times> path \<times> world) option" where
  "reaches_submit E s workflow inputs session_id w =
     (case (if session_id = [] then uuid_str E w else (session_id, w)) of
        (sid, w1) \<Rightarrow>
          (let d = PathJoin (PathJoin (workspace s) ''output'') sid
           in case mkdir E d w1 of
                (Some e, w2) \<Rightarrow> None
              | (None, w2) \<Rightarrow>
                  if \<exists>k \<in> set (map fst inputs).
                       k \<in> set [''host'', ''port'', ''workflow'', ''output_dir'', ''timeout'',
                                ''verbose'', ''workspace'']
                  then None
                  else
                    (case snd (populate_workflow E (length (trace w2)) (heap w2 ! workflow) d inputs) of
                       Inl e \<Rightarrow> None
                     | Inr content \<Rightarrow> Some (content, d, populated E d inputs workflow w2))))"

text \<open>The engine answers the submission with a body that has no job identifier.\<close>

definition env_no_prompt_id :: env where
  "env_no_prompt_id =
     env0\<lparr>http := (\<lambda>i q. Some (HttpBody (Some (JObj [(''error'', JStr ''invalid prompt'')]))))\<rparr>"

text \<open>\<^verbatim>\<open>populate_workflow\<close> writes into the object it is given and returns it.\<close>

definition env_populating :: env where
  "env_populating =
     env_third_poll\<lparr>populate_workflow :=
       (\<lambda>i c d kw. (JObj [(''populated'', JBool True)], Inr (JObj [(''populated'', JBool True)])))\<rparr>"

text \<open>
  The events of the port loop of \<^verbatim>\<open>start\<close>, from the candidate \<open>p\<close> to the port \<open>q\<close> it
  settles on: rounds of a connect to the candidate that is not refused and a draw of the
  next candidate from 10000..65535, then one connect, to \<open>q\<close>, that is refused.
\<close>

fun port_scan :: "string \<Rightarrow> int \<Rightarrow> event list \<Rightarrow> int \<Rightarrow> bool" where
  "port_scan h p [] q = False"
| "port_scan h p (ev # evs) q =
     (case ev of
        EvConnect h' p' r \<Rightarrow>
          h' = h \<and> p' = p \<and>
          (case r of
             Refused \<Rightarrow> evs = [] \<and> q = p
           | _ \<Rightarrow>
               (case evs of
                  EvRandint n # rest \<Rightarrow> 10000 \<le> n \<and> n \<le> 65535 \<and> port_scan h n rest q
                | _ \<Rightarrow> False))
      | _ \<Rightarrow> False)"

text \<open>The process asked to terminate as effect number \<open>i - 1\<close> exits within \<open>secs\<close> seconds.\<close>

definition exits_in_time :: "env \<Rightarrow> nat \<Rightarrow> nat \<Rightarrow> bool" where
  "exits_in_time E i secs = (case exit_delay E i of None \<Rightarrow> False | Some d \<Rightarrow> d < 1000 * secs)"

text \<open>A server that has never been started.\<close>

definition server0 :: server where
  "server0 =
     \<lparr>workspace = Path ''ws'', input_dir = Path ''input'', port = 8188, verbose = 0,
      host = ''127.0.0.1'', proc = None\<rparr>"

text \<open>The process ignores the termination signal for six seconds.\<close>

definition env_stubborn :: env where
  "env_stubborn = env0\<lparr>exit_delay := (\<lambda>i. Some 6000)\<rparr>"

text \<open>The spawn of the engine as \<^verbatim>\<open>start\<close> logs it, and the world after a successful one.\<close>

definition popen_event :: "server \<Rightarrow> exn + pid \<Rightarrow> event" where
  "popen_event s r =
     EvPopen (command s) (str_int (port s)) (workspace s) (stdio_of s) (stdio_of s) r"

definition spawned :: "env \<Rightarrow> server \<Rightarrow> pid \<Rightarrow> world \<Rightarrow> world" where
  "spawned E s c w = (tick E (popen_event s (Inr c)) w)\<lparr>alive := c # alive w\<rparr>"

text \<open>A spawn of a process.\<close>

fun is_popen :: "event \<Rightarrow> bool" where
  "is_popen (EvPopen cmd cp cwd out err r) = True"
| "is_popen ev = False"

text \<open>Every request to the engine is refused; every effect takes a thousand seconds.\<close>

definition env_never_ready :: env where
  "env_never_ready =
     env0\<lparr>http := (\<lambda>i q. Some (HttpError (URLError ''Connection refused''))),
          latency := (\<lambda>i. 1000000)\<rparr>"



text \<open>The first connect is accepted (the port is taken), the next one refused.\<close>

definition env_port_taken :: env where
  "env_port_taken =
     env0\<lparr>connect_result := (\<lambda>i h p. if i = 0 then Connected else Refused),
          rand := (\<lambda>i. 2345)\<rparr>"

text \<open>The worlds the two example starts end in.\<close>

definition world_started :: world where
  "world_started =
     \<lparr>clock = 0,
      trace =
        [EvConnect ''127.0.0.1'' 8188 Refused,
         EvPopen [''python'', ''-m'', ''comfy.cli.main''] ''8188'' (Path ''ws'') PIPE PIPE (Inr 4242),
         EvHttp (GET ''http://127.0.0.1:8188/api/customnode/getmappings?mode=nickname'')
           (HttpBody (Some (JObj []))),
         EvHttp (GET ''http://127.0.0.1:8188/api/object_info'') (HttpBody (Some (JObj [])))],
      heap = [JObj []], alive = [4242]\<rparr>"

definition world_port_taken :: world where
  "world_port_taken =
     \<lparr>clock = 0,
      trace =
        [EvConnect ''127.0.0.1'' 45000 Connected,
         EvRandint 12345,
         EvConnect ''127.0.0.1'' 12345 Refused,
         EvPopen [''python'', ''-m'', ''comfy.cli.main''] ''12345'' (Path ''ws'') PIPE PIPE (Inr 4242),
         EvHttp (GET ''http://127.0.0.1:12345/api/customnode/getmappings?mode=nickname'')
           (HttpBody (Some (JObj []))),
         EvHttp (GET ''http://127.0.0.1:12345/api/object_info'') (HttpBody (Some (JObj [])))],
      heap = [JObj []], alive = [4242]\<rparr>"

text \<open>The world after the first port check in \<open>env_never_ready\<close>.\<close>

definition world_port_checked :: world where
  "world_port_checked =
     \<lparr>clock = 1000000, trace = [EvConnect ''127.0.0.1'' 8188 Refused], heap = [JObj []],
      alive = []\<rparr>"

text \<open>
  The world in which the only round of the readiness wait in \<open>env_never_ready\<close> ends, and
  the world after the engine has been stopped there.
\<close>

definition world_gave_up :: world where
  "world_gave_up =
     \<lparr>clock = 4001000,
      trace =
        [EvConnect ''127.0.0.1'' 8188 Refused,
         EvPopen [''python'', ''-m'', ''comfy.cli.main''] ''8188'' (Path ''ws'') PIPE PIPE (Inr 4242),
         EvHttp (GET ''http://127.0.0.1:8188/api/customnode/getmappings?mode=nickname'')
           (HttpError (URLError ''Connection refused'')),
         EvSleep 1],
      heap = [JObj []], alive = [4242]\<rparr>"


text \<open>The output directory of the example job, and the worlds of its execution.\<close>

definition session_dir :: path where
  "session_dir = PathJoin (PathJoin (Path ''ws'') ''output'') ''session''"

definition world_job_ready :: world where
  "world_job_ready =
     \<lparr>clock = 0,
      trace = [EvMkdir session_dir None, EvPopulate session_dir []],
      heap = [JObj [], JObj []], alive = []\<rparr>"

definition world_job_timed_out :: world where
  "world_job_timed_out =
     \<lparr>clock = 1000,
      trace =
        [EvMkdir session_dir None,
         EvPopulate session_dir [],
         EvHttp (POST ''http://127.0.0.1:8188/prompt'' [(''Content-Type'', ''application/json'')]
                   (JObj [(''prompt'', JObj [])]))
           (HttpBody (Some (JObj [(''prompt_id'', JStr ''abc123'')]))),
         EvHttp (GET ''http://127.0.0.1:8188/history/abc123'')
           (HttpBody (Some (JObj [(''outputs'', JObj [])]))),
         EvSleep 1],
      heap = [JObj [], JObj []], alive = []\<rparr>"

definition world_job_rejected :: world where
  "world_job_rejected =
     \<lparr>clock = 0,
      trace =
        [EvMkdir session_dir None,
         EvPopulate session_dir [],
         EvHttp (POST ''http://127.0.0.1:8188/prompt'' [(''Content-Type'', ''application/json'')]
                   (JObj [(''prompt'', JObj [])]))
           (HttpBody (Some (JObj [(''error'', JStr ''invalid prompt'')])))],
      heap = [JObj [], JObj []], alive = []\<rparr>"


section \<open>Properties\<close>

subsection \<open>Effects of the primitives\<close>

declare wait_loop.simps [simp del] poll_loop.simps [simp del] str_nat.simps [simp del]

lemma tick_simps [simp]:
  "trace (tick E ev w) = trace w @ [ev]"
  "clock (tick E ev w) = clock w + latency E (length (trace w))"
  "heap (tick E ev w) = heap w"
  "alive (tick E ev w) = alive w"
  by (simp_all add: tick_def)

lemma sleep_simps [simp]:
  "trace (sleep E n w) = trace w @ [EvSleep n]"
  "clock (sleep E n w) = clock w + 1000 * n + latency E (length (trace w))"
  "heap (sleep E n w) = heap w"
  "alive (sleep E n w) = alive w"
  by (simp_all add: sleep_def)

lemma urlopen_answered:
  "urlopen E q w = (Some res, w1) \<longleftrightarrow>
     http E (length (trace w)) q = Some res \<and> w1 = tick E (EvHttp q res) w"
  by (auto simp: urlopen_def split: option.splits)

lemma urlopen_blocked:
  "urlopen E q w = (None, w1) \<longleftrightarrow> http E (length (trace w)) q = None \<and> w1 = w"
  by (auto simp: urlopen_def split: option.splits)

lemma urlopen_run:
  "urlopen E q w = (Some res, w1) \<Longrightarrow>
     trace w1 = trace w @ [EvHttp q res] \<and> heap w1 = heap w \<and> alive w1 = alive w
     \<and> clock w \<le> clock w1"
  by (simp add: urlopen_answered)

subsection \<open>The polling loop, one step at a time\<close>

lemma poll_loop_timeout:
  "\<not> time_remains E st tmo w \<Longrightarrow>
     poll_loop E url st tmo w = (Some (Inl (TimeoutError ''Workflow execution timed out'')), w)"
  by (subst poll_loop.simps) simp

lemma poll_loop_blocked:
  "time_remains E st tmo w \<Longrightarrow> urlopen E (GET url) w = (None, w1) \<Longrightarrow>
     poll_loop E url st tmo w = (None, w1)"
  by (subst poll_loop.simps) simp

lemma poll_loop_error:
  "time_remains E st tmo w \<Longrightarrow> urlopen E (GET url) w = (Some res, w1) \<Longrightarrow>
   outputs_ready res = Inl e \<Longrightarrow> poll_loop E url st tmo w = (Some (Inl e), w1)"
  by (subst poll_loop.simps) simp

lemma poll_loop_ready:
  "time_remains E st tmo w \<Longrightarrow> urlopen E (GET url) w = (Some res, w1) \<Longrightarrow>
   outputs_ready res = Inr True \<Longrightarrow> poll_loop E url st tmo w = (Some (Inr ()), w1)"
  by (subst poll_loop.simps) simp

lemma poll_loop_retry:
  "time_remains E st tmo w \<Longrightarrow> urlopen E (GET url) w = (Some res, w1) \<Longrightarrow>
   outputs_ready res = Inr False \<Longrightarrow>
     poll_loop E url st tmo w = poll_loop E url st tmo (sleep E 1 w1)"
  by (subst poll_loop.simps) simp

lemma time_remains_bound: "time_remains E st tmo w \<Longrightarrow> int (clock w) - int st \<le> tmo * 1000"
  by (auto simp: time_remains_def)

lemma deadline_passed: "\<not> time_remains E st tmo w \<Longrightarrow> tmo * 1000 \<le> int (clock w) - int st"
  by (auto simp: time_remains_def)

lemma poll_loop_cases [case_names timeout blocked error ready retry]:
  assumes "\<And>w. \<not> time_remains E st tmo w \<Longrightarrow> P w"
    and "\<And>w w1. time_remains E st tmo w \<Longrightarrow> urlopen E (GET url) w = (None, w1) \<Longrightarrow> P w"
    and "\<And>w res w1 e. time_remains E st tmo w \<Longrightarrow> urlopen E (GET url) w = (Some res, w1) \<Longrightarrow>
           outputs_ready res = Inl e \<Longrightarrow> P w"
    and "\<And>w res w1. time_remains E st tmo w \<Longrightarrow> urlopen E (GET url) w = (Some res, w1) \<Longrightarrow>
           outputs_ready res = Inr True \<Longrightarrow> P w"
    and "\<And>w res w1. time_remains E st tmo w \<Longrightarrow> urlopen E (GET url) w = (Some res, w1) \<Longrightarrow>
           outputs_ready res = Inr False \<Longrightarrow> P (sleep E 1 w1) \<Longrightarrow> P w"
  shows "P w"
proof (induction "nat (tmo * 1000 + 1 - (int (clock w) - int st))" arbitrary: w rule: less_induct)
  case less
  show ?case
  proof (cases "time_remains E st tmo w")
    case False
    then show ?thesis by (rule assms(1))
  next
    case True
    obtain x w1 where op: "urlopen E (GET url) w = (x, w1)"
      by (cases "urlopen E (GET url) w")
    show ?thesis
    proof (cases x)
      case None
      with True op show ?thesis by (auto intro: assms(2))
    next
      case (Some res)
      note op = op[unfolded Some]
      show ?thesis
      proof (cases "outputs_ready res")
        case (Inl e)
        with True op show ?thesis by (rule assms(3))
      next
        case (Inr b)
        show ?thesis
        proof (cases b)
          case True
          with Inr have "outputs_ready res = Inr True" by simp
          with \<open>time_remains E st tmo w\<close> op show ?thesis by (rule assms(4))
        next
          case False
          with Inr have r: "outputs_ready res = Inr False" by simp
          have "clock w \<le> clock w1"
            using urlopen_run[OF op] by simp
          then have "P (sleep E 1 w1)"
            using time_remains_bound[OF True] by (intro less) simp
          with True op r show ?thesis by (rule assms(5))
        qed
      qed
    qed
  qed
qed

lemma poll_loop_outcome:
  "\<exists>n wn. poll_rounds E url st tmo n w = Some wn
     \<and> (if time_remains E st tmo wn then
          (case urlopen E (GET url) wn of
             (None, w') \<Rightarrow> poll_loop E url st tmo w = (None, w')
           | (Some res, w') \<Rightarrow>
               (case outputs_ready res of
                  Inl e \<Rightarrow> poll_loop E url st tmo w = (Some (Inl e), w')
                | Inr b \<Rightarrow> b \<and> poll_loop E url st tmo w = (Some (Inr ()), w')))
        else poll_loop E url st tmo w = (Some (Inl (TimeoutError ''Workflow execution timed out'')), wn))"
proof (induction w rule: poll_loop_cases[where st=st and tmo=tmo and E=E and url=url])
  case (timeout w)
  then show ?case
    by (intro exI[of _ 0] exI[of _ w]) (simp add: poll_loop_timeout)
next
  case (blocked w w1)
  then show ?case
    by (intro exI[of _ 0] exI[of _ w]) (simp add: poll_loop_blocked)
next
  case (error w res w1 e)
  then show ?case
    by (intro exI[of _ 0] exI[of _ w]) (simp add: poll_loop_error)
next
  case (ready w res w1)
  then show ?case
    by (intro exI[of _ 0] exI[of _ w]) (simp add: poll_loop_ready)
next
  case (retry w res w1)
  from retry(4) obtain n wn where n:
    "poll_rounds E url st tmo n (sleep E 1 w1) = Some wn"
    "if time_remains E st tmo wn then
          (case urlopen E (GET url) wn of
             (None, w') \<Rightarrow> poll_loop E url st tmo (sleep E 1 w1) = (None, w')
           | (Some res, w') \<Rightarrow>
               (case outputs_ready res of
                  Inl e \<Rightarrow> poll_loop E url st tmo (sleep E 1 w1) = (Some (Inl e), w')
                | Inr b \<Rightarrow> b \<and> poll_loop E url st tmo (sleep E 1 w1) = (Some (Inr ()), w')))
        else poll_loop E url st tmo (sleep E 1 w1) = (Some (Inl (TimeoutError ''Workflow execution timed out'')), wn)"
    by blast
  have "poll_rounds E url st tmo (Suc n) w = Some wn"
    using retry(1,2,3) n(1) by simp
  then show ?case
    using n(2) unfolding poll_loop_retry[OF retry(1,2,3)]
    by (intro exI[of _ "Suc n"] exI[of _ wn]) simp
qed

lemma poll_rounds_step:
  assumes "poll_rounds E url st tmo (Suc n) w = Some wn"
  obtains res w1 where "time_remains E st tmo w" "urlopen E (GET url) w = (Some res, w1)"
    "outputs_ready res = Inr False" "poll_rounds E url st tmo n (sleep E 1 w1) = Some wn"
proof -
  obtain x w1 where op: "urlopen E (GET url) w = (x, w1)"
    by (cases "urlopen E (GET url) w")
  from assms op obtain res where x: "x = Some res"
    by (cases x) (simp_all split: if_splits)
  from assms op x that show ?thesis
    by (cases "outputs_ready res") (auto split: if_splits)
qed

lemma poll_rounds_run:
  "poll_rounds E url st tmo n w = Some wn \<Longrightarrow>
     \<exists>evs. trace wn = trace w @ evs
       \<and> (\<forall>ev \<in> set evs. ev = EvSleep 1 \<or> (\<exists>res. ev = EvHttp (GET url) res))
       \<and> heap wn = heap w \<and> alive wn = alive w \<and> clock w + 1000 * n \<le> clock wn"
proof (induction n arbitrary: w)
  case 0
  then show ?case by simp
next
  case (Suc n)
  from Suc.prems obtain res w1 where s:
    "urlopen E (GET url) w = (Some res, w1)"
    "poll_rounds E url st tmo n (sleep E 1 w1) = Some wn"
    by (rule poll_rounds_step)
  from Suc.IH[OF s(2)] obtain evs where evs:
    "trace wn = trace (sleep E 1 w1) @ evs"
    "\<forall>ev \<in> set evs. ev = EvSleep 1 \<or> (\<exists>res. ev = EvHttp (GET url) res)"
    "heap wn = heap (sleep E 1 w1)" "alive wn = alive (sleep E 1 w1)"
    "clock (sleep E 1 w1) + 1000 * n \<le> clock wn"
    by blast
  show ?case
    using evs urlopen_run[OF s(1)]
    by (intro exI[of _ "EvHttp (GET url) res # EvSleep 1 # evs"]) auto
qed


lemma poll_loop_run:
  assumes "poll_loop E url st tmo w = (r, w')"
  shows "\<exists>evs. trace w' = trace w @ evs
      \<and> (\<forall>ev \<in> set evs. ev = EvSleep 1 \<or> (\<exists>res. ev = EvHttp (GET url) res))
      \<and> heap w' = heap w \<and> alive w' = alive w \<and> clock w \<le> clock w'"
proof -
  from poll_loop_outcome[of E url st tmo w] obtain n wn where n:
    "poll_rounds E url st tmo n w = Some wn"
    "if time_remains E st tmo wn then
          (case urlopen E (GET url) wn of
             (None, w') \<Rightarrow> poll_loop E url st tmo w = (None, w')
           | (Some res, w') \<Rightarrow>
               (case outputs_ready res of
                  Inl e \<Rightarrow> poll_loop E url st tmo w = (Some (Inl e), w')
                | Inr b \<Rightarrow> b \<and> poll_loop E url st tmo w = (Some (Inr ()), w')))
        else poll_loop E url st tmo w = (Some (Inl (TimeoutError ''Workflow execution timed out'')), wn)"
    by blast
  from poll_rounds_run[OF n(1)] obtain evs where evs:
    "trace wn = trace w @ evs"
    "\<forall>ev \<in> set evs. ev = EvSleep 1 \<or> (\<exists>res. ev = EvHttp (GET url) res)"
    "heap wn = heap w" "alive wn = alive w" "clock w \<le> clock wn"
    by auto
  show ?thesis
  proof (cases "time_remains E st tmo wn")
    case False
    with n(2) assms have "w' = wn" by simp
    with evs show ?thesis by blast
  next
    case True
    obtain x w1 where op: "urlopen E (GET url) wn = (x, w1)"
      by (cases "urlopen E (GET url) wn")
    show ?thesis
    proof (cases x)
      case None
      with n(2) True op assms have "w' = w1" by simp
      moreover from op None have "w1 = wn" by (simp add: urlopen_blocked)
      ultimately show ?thesis using evs by blast
    next
      case (Some res)
      from n(2) True op Some assms have "w1 = w'"
        by (cases "outputs_ready res") auto
      with op Some have "urlopen E (GET url) wn = (Some res, w')" by simp
      from urlopen_run[OF this] evs show ?thesis
        by (intro exI[of _ "evs @ [EvHttp (GET url) res]"]) auto
    qed
  qed
qed






subsection \<open>Running a workflow\<close>

lemma submit_and_poll_run:
  assumes "submit_and_poll E h p content d tmo w = (r, w')"
  shows "\<exists>evs. trace w' = trace w @ evs
      \<and> heap w' = heap w \<and> alive w' = alive w \<and> clock w \<le> clock w'
      \<and> (case http E (length (trace w)) (submit_request h p content) of
            None \<Rightarrow> evs = [] \<and> r = None
          | Some res \<Rightarrow>
              (\<exists>evs'. evs = EvHttp (submit_request h p content) res # evs'
                 \<and> (\<forall>e. prompt_id_of res = Inl e \<longrightarrow> evs' = [] \<and> r = Some (Inl e))
                 \<and> (\<forall>ev \<in> set evs'. \<forall>u hdrs b r. ev \<noteq> EvHttp (POST u hdrs b) r)))"
proof -
  obtain x w1 where op: "urlopen E (submit_request h p content) w = (x, w1)"
    by (cases "urlopen E (submit_request h p content) w")
  show ?thesis
  proof (cases x)
    case None
    with op have "http E (length (trace w)) (submit_request h p content) = None" "w1 = w"
      by (simp_all add: urlopen_blocked)
    moreover from assms op None have "r = None" "w' = w1"
      by (simp_all add: submit_and_poll_def)
    ultimately show ?thesis by simp
  next
    case (Some res)
    note op = op[unfolded Some]
    note w1 = urlopen_run[OF op]
    have res: "http E (length (trace w)) (submit_request h p content) = Some res"
      using op by (simp add: urlopen_answered)
    show ?thesis
    proof (cases "prompt_id_of res")
      case (Inl e)
      with assms op have "r = Some (Inl e)" "w' = w1"
        by (simp_all add: submit_and_poll_def)
      with w1 res Inl show ?thesis by simp
    next
      case (Inr prompt_id)
      let ?url = "history_url E h p prompt_id"
      obtain r2 w2 where pl: "poll_loop E ?url (clock w1) tmo w1 = (r2, w2)"
        by (cases "poll_loop E ?url (clock w1) tmo w1")
      from poll_loop_run[OF pl] obtain evs where evs:
        "trace w2 = trace w1 @ evs"
        "\<forall>ev \<in> set evs. ev = EvSleep 1 \<or> (\<exists>res. ev = EvHttp (GET ?url) res)"
        "heap w2 = heap w1" "alive w2 = alive w1" "clock w1 \<le> clock w2"
        by blast
      have np: "\<forall>ev \<in> set evs. \<forall>u hdrs b r. ev \<noteq> EvHttp (POST u hdrs b) r"
        using evs(2) by auto
      have "\<exists>post. trace w' = trace w2 @ post \<and> heap w' = heap w2 \<and> alive w' = alive w2
          \<and> clock w2 \<le> clock w' \<and> (\<forall>ev \<in> set post. \<forall>u hdrs b r. ev \<noteq> EvHttp (POST u hdrs b) r)"
      proof (cases r2)
        case None
        with assms op Inr pl have "w' = w2"
          by (simp add: submit_and_poll_def)
        then show ?thesis by simp
      next
        case Some2: (Some r3)
        show ?thesis
        proof (cases r3)
          case (Inl e)
          with assms op Inr pl Some2 have "w' = w2"
            by (simp add: submit_and_poll_def)
          then show ?thesis by simp
        next
          case Inr2: (Inr u)
          with assms op Inr pl Some2 have "w' = tick E (EvRetrieve d) w2"
            by (simp add: submit_and_poll_def retrieve_def)
          then show ?thesis
            by (intro exI[of _ "[EvRetrieve d]"]) simp
        qed
      qed
      then obtain post where post: "trace w' = trace w2 @ post" "heap w' = heap w2"
        "alive w' = alive w2" "clock w2 \<le> clock w'"
        "\<forall>ev \<in> set post. \<forall>u hdrs b r. ev \<noteq> EvHttp (POST u hdrs b) r"
        by blast
      show ?thesis
        using evs np w1 res Inr post
        by (intro exI[of _ "EvHttp (submit_request h p content) res # evs @ post"]) auto
    qed
  qed
qed

lemma choose_output_dir_run:
  "\<exists>evs. trace (snd (choose_output_dir E od ws w)) = trace w @ evs
     \<and> heap (snd (choose_output_dir E od ws w)) = heap w
     \<and> alive (snd (choose_output_dir E od ws w)) = alive w
     \<and> (\<forall>ev \<in> set evs. \<not> is_http ev)"
  by (cases od) (auto simp: choose_output_dir_def uuid_str_def mkdir_def Let_def split: option.splits)

lemma run_workflow_unfold:
  "run_workflow E h p workflow od tmo vb ws kwargs w =
     (case fst (choose_output_dir E od ws w) of
        Inl e \<Rightarrow> (Some (Inl e), snd (choose_output_dir E od ws w))
      | Inr d \<Rightarrow>
          (case snd (populate_workflow E (length (trace (snd (choose_output_dir E od ws w))))
                      (heap (snd (choose_output_dir E od ws w)) ! workflow) d kwargs) of
             Inl e \<Rightarrow> (Some (Inl e), populated E d kwargs workflow (snd (choose_output_dir E od ws w)))
           | Inr content \<Rightarrow>
               (case fst (submit_and_poll E h p content d tmo
                            (populated E d kwargs workflow (snd (choose_output_dir E od ws w)))) of
                  None \<Rightarrow> None
                | Some (Inl e) \<Rightarrow> Some (Inl (reraise e))
                | Some (Inr v) \<Rightarrow> Some (Inr v),
                snd (submit_and_poll E h p content d tmo
                       (populated E d kwargs workflow (snd (choose_output_dir E od ws w)))))))"
proof -
  have copy: "(tick E ev (w1\<lparr>heap := a\<rparr>))\<lparr>heap := b\<rparr> = (tick E ev w1)\<lparr>heap := b\<rparr>" for ev w1 a b
    by (simp add: tick_def)
  show ?thesis
    by (simp add: run_workflow_def deepcopy_def Let_def case_prod_beta reraise_def populated_def copy
        split: sum.splits option.splits)
qed

lemma run_workflow_cases [consumes 1, case_names setup_failed submitted]:
  assumes "run_workflow E h p workflow od tmo vb ws kwargs w = (r, w')"
  obtains
    pre e where "trace w' = trace w @ pre" "\<forall>ev \<in> set pre. \<not> is_http ev" "r = Some (Inl e)"
      "take (length (heap w)) (heap w') = heap w"
  | pre content d w3 where "trace w3 = trace w @ pre" "\<forall>ev \<in> set pre. \<not> is_http ev"
      "take (length (heap w)) (heap w3) = heap w"
      "w' = snd (submit_and_poll E h p content d tmo w3)"
      "r = (case fst (submit_and_poll E h p content d tmo w3) of
              None \<Rightarrow> None
            | Some (Inl e) \<Rightarrow> Some (Inl (reraise e))
            | Some (Inr v) \<Rightarrow> Some (Inr v))"
proof -
  let ?C = "choose_output_dir E od ws w"
  obtain evs where evs: "trace (snd ?C) = trace w @ evs" "heap (snd ?C) = heap w"
    "\<forall>ev \<in> set evs. \<not> is_http ev"
    using choose_output_dir_run[of E od ws w] by blast
  show thesis
  proof (cases "fst ?C")
    case (Inl e)
    then have "r = Some (Inl e)" "w' = snd ?C"
      using assms by (simp_all add: run_workflow_unfold)
    with evs show ?thesis by (intro that(1)[of evs e]) auto
  next
    case (Inr d)
    let ?w3 = "populated E d kwargs workflow (snd ?C)"
    let ?pop = "populate_workflow E (length (trace (snd ?C))) (heap (snd ?C) ! workflow) d kwargs"
    have tr3: "trace ?w3 = trace w @ (evs @ [EvPopulate d kwargs])"
      using evs by (simp add: populated_def)
    have no3: "\<forall>ev \<in> set (evs @ [EvPopulate d kwargs]). \<not> is_http ev"
      using evs by simp
    have hp3: "take (length (heap w)) (heap ?w3) = heap w"
      using evs by (simp add: populated_def)
    show ?thesis
    proof (cases "snd ?pop")
      case (Inl e)
      then have "r = Some (Inl e)" "w' = ?w3"
        using assms \<open>fst ?C = Inr d\<close> by (simp_all add: run_workflow_unfold)
      with tr3 no3 hp3 show ?thesis by (intro that(1)[of "evs @ [EvPopulate d kwargs]" e]) auto
    next
      case (Inr content)
      then have "w' = snd (submit_and_poll E h p content d tmo ?w3)"
        "r = (case fst (submit_and_poll E h p content d tmo ?w3) of
              None \<Rightarrow> None
            | Some (Inl e) \<Rightarrow> Some (Inl (reraise e))
            | Some (Inr v) \<Rightarrow> Some (Inr v))"
        using assms \<open>fst ?C = Inr d\<close> by (simp_all add: run_workflow_unfold)
      with tr3 no3 hp3 show ?thesis by (intro that(2)[of ?w3 "evs @ [EvPopulate d kwargs]" content d]) auto
    qed
  qed
qed

lemma subscript_error_not_timeout:
  "subscript v k = Inl e \<Longrightarrow> \<not> isinstance_TimeoutError e"
  by (cases v) (auto split: option.splits)

lemma is_poll_is_http: "is_poll ev \<Longrightarrow> is_http ev"
  by (cases ev) auto

text \<open>
  C2. When the engine answers the submission of a job with a body that has no
  \<^verbatim>\<open>prompt_id\<close> (a dict without the key, or not a dict), \<^verbatim>\<open>run_workflow\<close> raises a
  \<^verbatim>\<open>RuntimeError\<close> that wraps the lookup failure, and the call issues no status poll: the
  submission is the last thing it does.
\<close>

theorem run_workflow_missing_prompt_id:
  assumes "run_workflow E h p workflow od tmo vb ws kwargs w = (r, w')"
    and "EvHttp (POST u hdrs b) (HttpBody (Some body)) \<in> set (drop (length (trace w)) (trace w'))"
    and "subscript body ''prompt_id'' = Inl e"
  shows "r = Some (Inl (RuntimeError ''Workflow execution failed: '' e))
     \<and> filter is_poll (drop (length (trace w)) (trace w')) = []
     \<and> last (trace w') = EvHttp (POST u hdrs b) (HttpBody (Some body))"
  using assms(1)
proof (cases rule: run_workflow_cases)
  case (setup_failed pre e')
  with assms(2) show ?thesis by auto
next
  case (submitted pre content d w3)
  let ?S = "submit_and_poll E h p content d tmo w3"
  from submit_and_poll_run[OF surjective_pairing, of E h p content d tmo w3] obtain evs where evs:
    "trace (snd ?S) = trace w3 @ evs"
    "case http E (length (trace w3)) (submit_request h p content) of
            None \<Rightarrow> evs = [] \<and> fst ?S = None
          | Some res \<Rightarrow>
              (\<exists>evs'. evs = EvHttp (submit_request h p content) res # evs'
                 \<and> (\<forall>e. prompt_id_of res = Inl e \<longrightarrow> evs' = [] \<and> fst ?S = Some (Inl e))
                 \<and> (\<forall>ev \<in> set evs'. \<forall>u hdrs b r. ev \<noteq> EvHttp (POST u hdrs b) r))"
    by blast
  have tr0: "drop (length (trace w)) (trace w') = pre @ evs"
    using submitted(1,4) evs(1) by simp
  have notpre: "EvHttp (POST u hdrs b) (HttpBody (Some body)) \<notin> set pre"
    using submitted(2) by auto
  with assms(2) tr0 have "evs \<noteq> []" by auto
  with evs(2) obtain res evs' where res:
    "evs = EvHttp (submit_request h p content) res # evs'"
    "\<forall>e. prompt_id_of res = Inl e \<longrightarrow> evs' = [] \<and> fst ?S = Some (Inl e)"
    "\<forall>ev \<in> set evs'. \<forall>u hdrs b r. ev \<noteq> EvHttp (POST u hdrs b) r"
    by (cases "http E (length (trace w3)) (submit_request h p content)") auto
  have "EvHttp (POST u hdrs b) (HttpBody (Some body)) \<notin> set evs'"
    using res(3) by auto
  with notpre have same: "EvHttp (POST u hdrs b) (HttpBody (Some body)) = EvHttp (submit_request h p content) res"
    using assms(2) tr0 res(1) by auto
  then have "res = HttpBody (Some body)"
    by simp
  then have "prompt_id_of res = Inl e"
    using assms(3) by (simp add: prompt_id_of_def)
  with res(2) have fin: "evs' = []" "fst ?S = Some (Inl e)"
    by auto
  have "reraise e = RuntimeError ''Workflow execution failed: '' e"
    using subscript_error_not_timeout[OF assms(3)] by (simp add: reraise_def)
  with submitted(5) fin(2) have r: "r = Some (Inl (RuntimeError ''Workflow execution failed: '' e))"
    by simp
  have "filter is_poll pre = []"
    using submitted(2) is_poll_is_http by (auto simp: filter_empty_conv)
  then have np: "filter is_poll (drop (length (trace w)) (trace w')) = []"
    using tr0 res(1) fin(1) by (simp add: submit_request_def)
  have "trace w' = trace w @ pre @ [EvHttp (submit_request h p content) res]"
    using submitted(1,4) evs(1) res(1) fin(1) by simp
  then have "last (trace w') = EvHttp (POST u hdrs b) (HttpBody (Some body))"
    using same by simp
  with r np show ?thesis by simp
qed

lemma str_int_8188: "str_int 8188 = ''8188''"
  by (simp add: str_int_def str_nat.simps digit_char_def)

lemma no_prompt_id_run:
  "run_workflow env_no_prompt_id ''127.0.0.1'' 8188 0 (Some (Path ''out'')) 300 0 (Path ''.'') [] world0 =
     (Some (Inl (RuntimeError ''Workflow execution failed: '' (KeyError ''prompt_id''))),
      \<lparr>clock = 0,
       trace = [EvPopulate (Path ''out'') [],
                EvHttp (POST ''http://127.0.0.1:8188/prompt'' [(''Content-Type'', ''application/json'')]
                          (JObj [(''prompt'', JObj [])]))
                  (HttpBody (Some (JObj [(''error'', JStr ''invalid prompt'')])))],
       heap = [JObj [], JObj []], alive = []\<rparr>)"
  by (simp add: run_workflow_def choose_output_dir_def deepcopy_def submit_and_poll_def urlopen_def
      submit_request_def prompt_url_def str_int_8188 prompt_id_of_def
      env_no_prompt_id_def env0_def world0_def tick_def Let_def)

theorem run_workflow_missing_prompt_id_witness:
  "EvHttp (POST ''http://127.0.0.1:8188/prompt'' [(''Content-Type'', ''application/json'')]
             (JObj [(''prompt'', JObj [])]))
          (HttpBody (Some (JObj [(''error'', JStr ''invalid prompt'')])))
     \<in> set (drop (length (trace world0))
           (trace (snd (run_workflow env_no_prompt_id ''127.0.0.1'' 8188 0 (Some (Path ''out'')) 300 0
                          (Path ''.'') [] world0))))
   \<and> subscript (JObj [(''error'', JStr ''invalid prompt'')]) ''prompt_id'' = Inl (KeyError ''prompt_id'')
   \<and> fst (run_workflow env_no_prompt_id ''127.0.0.1'' 8188 0 (Some (Path ''out'')) 300 0 (Path ''.'') [] world0)
       = Some (Inl (RuntimeError ''Workflow execution failed: '' (KeyError ''prompt_id'')))
   \<and> filter is_poll
        (drop (length (trace world0))
           (trace (snd (run_workflow env_no_prompt_id ''127.0.0.1'' 8188 0 (Some (Path ''out'')) 300 0
                          (Path ''.'') [] world0)))) = []"
proof -
  let ?R = "run_workflow env_no_prompt_id ''127.0.0.1'' 8188 0 (Some (Path ''out'')) 300 0 (Path ''.'') [] world0"
  have a: "EvHttp (POST ''http://127.0.0.1:8188/prompt'' [(''Content-Type'', ''application/json'')]
             (JObj [(''prompt'', JObj [])]))
          (HttpBody (Some (JObj [(''error'', JStr ''invalid prompt'')])))
     \<in> set (drop (length (trace world0)) (trace (snd ?R)))"
    unfolding no_prompt_id_run by (simp add: world0_def)
  have b: "subscript (JObj [(''error'', JStr ''invalid prompt'')]) ''prompt_id'' = Inl (KeyError ''prompt_id'')"
    by simp
  from run_workflow_missing_prompt_id[OF surjective_pairing a b] a b
  show ?thesis by simp
qed

text \<open>
  C9. \<^verbatim>\<open>run_workflow\<close> leaves the caller's workflow object as it was: what it populates
  is a fresh copy, so every object that existed before the call, the workflow among them,
  holds afterwards what it held before.
\<close>

theorem run_workflow_leaves_workflow_unchanged:
  assumes "workflow < length (heap w)"
    and "run_workflow E h p workflow od tmo vb ws kwargs w = (r, w')"
  shows "heap w' ! workflow = heap w ! workflow \<and> take (length (heap w)) (heap w') = heap w"
proof -
  have t: "take (length (heap w)) (heap w') = heap w"
    using assms(2)
  proof (cases rule: run_workflow_cases)
    case (setup_failed pre e)
    then show ?thesis by simp
  next
    case (submitted pre content d w3)
    have "heap (snd (submit_and_poll E h p content d tmo w3)) = heap w3"
      using submit_and_poll_run[OF surjective_pairing, of E h p content d tmo w3] by blast
    with submitted(3,4) show ?thesis by simp
  qed
  have "heap w' ! workflow = take (length (heap w)) (heap w') ! workflow"
    using assms(1) by simp
  with t show ?thesis by simp
qed

lemma populating_run_heap:
  "heap (snd (run_workflow env_populating ''127.0.0.1'' 8188 0 (Some (Path ''out'')) 300 0 (Path ''.'') [] world0))
     = [JObj [], JObj [(''populated'', JBool True)]]"
proof -
  let ?w3 = "populated env_populating (Path ''out'') [] 0 world0"
  have "heap (snd (submit_and_poll env_populating ''127.0.0.1'' 8188 (JObj [(''populated'', JBool True)])
                     (Path ''out'') 300 ?w3)) = heap ?w3"
    using submit_and_poll_run[OF surjective_pairing, of env_populating "''127.0.0.1''" 8188
            "JObj [(''populated'', JBool True)]" "Path ''out''" 300 ?w3]
    by blast
  then show ?thesis
    by (simp add: run_workflow_unfold choose_output_dir_def populated_def env_populating_def
        env_third_poll_def env0_def world0_def)
qed

theorem run_workflow_leaves_workflow_unchanged_witness:
  "(0::nat) < length (heap world0)
   \<and> heap (snd (run_workflow env_populating ''127.0.0.1'' 8188 0 (Some (Path ''out'')) 300 0 (Path ''.'') []
                   world0)) ! 0 = JObj []
   \<and> heap (snd (run_workflow env_populating ''127.0.0.1'' 8188 0 (Some (Path ''out'')) 300 0 (Path ''.'') []
                   world0)) ! 1 = JObj [(''populated'', JBool True)]"
proof -
  have a: "(0::nat) < length (heap world0)"
    by (simp add: world0_def)
  from run_workflow_leaves_workflow_unchanged[OF a surjective_pairing] a populating_run_heap
  show ?thesis by (simp add: world0_def)
qed

text \<open>
  C10. \<^verbatim>\<open>execute_remote_workflow\<close> does not use its session identifier: two calls that
  differ in it only give the same result and do the same things, the output directory
  they create included.
\<close>

theorem execute_remote_workflow_ignores_session_id:
  "execute_remote_workflow E server_url workflow inputs session_id tmo w
     = execute_remote_workflow E server_url workflow inputs session_id' tmo w"
  by (simp add: execute_remote_workflow_def)

lemma find_port_run:
  assumes "find_port E s w = Some y"
  shows "\<exists>scan. trace (snd y) = trace w @ scan \<and> port_scan (host s) (port s) scan (port (fst y))
      \<and> fst y = s\<lparr>port := port (fst y)\<rparr> \<and> heap (snd y) = heap w \<and> alive (snd y) = alive w
      \<and> clock w \<le> clock (snd y)"
  using assms
proof (induction rule: find_port.raw_induct[rotated 1, consumes 1])
  case (1 find_port' E s w y)
  let ?r = "connect_result E (length (trace w)) (host s) (port s)"
  let ?wa = "tick E (EvConnect (host s) (port s) ?r) w"
  show ?case
  proof (cases "?r = Refused")
    case True
    with 1(2) have "y = (s, ?wa)"
      by (auto simp: is_port_in_use_def Let_def)
    with True show ?thesis
      by (intro exI[of _ "[EvConnect (host s) (port s) ?r]"]) simp
  next
    case False
    let ?n = "10000 + int (rand E (length (trace ?wa)) mod 55536)"
    let ?wb = "tick E (EvRandint ?n) ?wa"
    from False have inuse: "is_port_in_use E (port s) (host s) w = (True, ?wa)"
      by (cases ?r) (simp_all add: is_port_in_use_def Let_def)
    with 1(2) have rec: "find_port' E (s\<lparr>port := ?n\<rparr>) ?wb = Some y"
      by (simp add: randint_def Let_def)
    from 1(1)[OF rec] obtain scan where scan:
      "trace (snd y) = trace ?wb @ scan" "port_scan (host s) ?n scan (port (fst y))"
      "fst y = s\<lparr>port := port (fst y)\<rparr>" "heap (snd y) = heap w" "alive (snd y) = alive w"
      "clock ?wb \<le> clock (snd y)"
      by auto
    have rng: "10000 \<le> ?n" "?n \<le> 65535"
      by simp_all
    show ?thesis
      using scan False rng
      by (intro exI[of _ "EvConnect (host s) (port s) ?r # EvRandint ?n # scan"])
         (cases ?r; simp)
  qed
qed

subsection \<open>The readiness wait\<close>

lemma probe_run:
  assumes "probe_comfyui_server E p w = (r, w1)"
  shows "\<exists>evs. trace w1 = trace w @ evs \<and> filter is_popen evs = []
     \<and> heap w1 = heap w \<and> alive w1 = alive w \<and> clock w \<le> clock w1
     \<and> (r = Some (Inr ()) \<longrightarrow>
          (\<exists>b b'. evs = [EvHttp (GET (mappings_url p)) (HttpBody b),
                         EvHttp (GET (object_info_url p)) (HttpBody b')]))"
  using assms
  by (auto simp: probe_comfyui_server_def urlopen_def split: option.splits http_result.splits)

lemma wait_loop_timeout:
  "\<not> time_remains E st tmo w \<Longrightarrow>
     wait_loop E p st tmo w = (Some (Inl (TimeoutError ''ComfyUI server failed to start'')), w)"
  by (subst wait_loop.simps) simp

lemma wait_loop_blocked:
  "time_remains E st tmo w \<Longrightarrow> probe_comfyui_server E p w = (None, w1) \<Longrightarrow>
     wait_loop E p st tmo w = (None, w1)"
  by (subst wait_loop.simps) simp

lemma wait_loop_ready:
  "time_remains E st tmo w \<Longrightarrow> probe_comfyui_server E p w = (Some (Inr u), w1) \<Longrightarrow>
     wait_loop E p st tmo w = (Some (Inr ()), w1)"
  by (subst wait_loop.simps) simp

lemma wait_loop_retry:
  "time_remains E st tmo w \<Longrightarrow> probe_comfyui_server E p w = (Some (Inl e), w1) \<Longrightarrow>
     wait_loop E p st tmo w = wait_loop E p st tmo (sleep E 1 w1)"
  by (subst wait_loop.simps) simp

lemma wait_loop_cases [case_names timeout blocked ready retry]:
  assumes "\<And>w. \<not> time_remains E st tmo w \<Longrightarrow> P w"
    and "\<And>w w1. time_remains E st tmo w \<Longrightarrow> probe_comfyui_server E p w = (None, w1) \<Longrightarrow> P w"
    and "\<And>w u w1. time_remains E st tmo w \<Longrightarrow> probe_comfyui_server E p w = (Some (Inr u), w1) \<Longrightarrow> P w"
    and "\<And>w e w1. time_remains E st tmo w \<Longrightarrow> probe_comfyui_server E p w = (Some (Inl e), w1) \<Longrightarrow>
           P (sleep E 1 w1) \<Longrightarrow> P w"
  shows "P w"
proof (induction "nat (tmo * 1000 + 1 - (int (clock w) - int st))" arbitrary: w rule: less_induct)
  case less
  show ?case
  proof (cases "time_remains E st tmo w")
    case False
    then show ?thesis by (rule assms(1))
  next
    case True
    obtain x w1 where pr: "probe_comfyui_server E p w = (x, w1)"
      by (cases "probe_comfyui_server E p w")
    show ?thesis
    proof (cases x)
      case None
      with True pr show ?thesis by (auto intro: assms(2))
    next
      case (Some r)
      show ?thesis
      proof (cases r)
        case (Inr u)
        with True pr Some show ?thesis by (auto intro: assms(3))
      next
        case (Inl e)
        have "clock w \<le> clock w1"
          using probe_run[OF pr] by blast
        then have "P (sleep E 1 w1)"
          using time_remains_bound[OF True] by (intro less) simp
        with True pr Some Inl show ?thesis by (auto intro: assms(4))
      qed
    qed
  qed
qed

lemma wait_loop_outcome:
  "\<exists>n wn. wait_rounds E p st tmo n w = Some wn
     \<and> (if time_remains E st tmo wn then
          (case probe_comfyui_server E p wn of
             (None, w') \<Rightarrow> wait_loop E p st tmo w = (None, w')
           | (Some (Inr u), w') \<Rightarrow> wait_loop E p st tmo w = (Some (Inr ()), w')
           | (Some (Inl e), w') \<Rightarrow> False)
        else wait_loop E p st tmo w = (Some (Inl (TimeoutError ''ComfyUI server failed to start'')), wn))"
proof (induction w rule: wait_loop_cases[where st=st and tmo=tmo and E=E and p=p])
  case (timeout w)
  then show ?case
    by (intro exI[of _ 0] exI[of _ w]) (simp add: wait_loop_timeout)
next
  case (blocked w w1)
  then show ?case
    by (intro exI[of _ 0] exI[of _ w]) (simp add: wait_loop_blocked)
next
  case (ready w u w1)
  then show ?case
    by (intro exI[of _ 0] exI[of _ w]) (simp add: wait_loop_ready)
next
  case (retry w e w1)
  from retry(3) obtain n wn where n:
    "wait_rounds E p st tmo n (sleep E 1 w1) = Some wn"
    "if time_remains E st tmo wn then
          (case probe_comfyui_server E p wn of
             (None, w') \<Rightarrow> wait_loop E p st tmo (sleep E 1 w1) = (None, w')
           | (Some (Inr u), w') \<Rightarrow> wait_loop E p st tmo (sleep E 1 w1) = (Some (Inr ()), w')
           | (Some (Inl e), w') \<Rightarrow> False)
        else wait_loop E p st tmo (sleep E 1 w1) = (Some (Inl (TimeoutError ''ComfyUI server failed to start'')), wn)"
    by blast
  have "wait_rounds E p st tmo (Suc n) w = Some wn"
    using retry(1,2) n(1) by simp
  then show ?case
    using n(2) unfolding wait_loop_retry[OF retry(1,2)]
    by (intro exI[of _ "Suc n"] exI[of _ wn]) simp
qed

lemma wait_rounds_step:
  assumes "wait_rounds E p st tmo (Suc n) w = Some wn"
  obtains e w1 where "time_remains E st tmo w" "probe_comfyui_server E p w = (Some (Inl e), w1)"
    "wait_rounds E p st tmo n (sleep E 1 w1) = Some wn"
proof -
  obtain x w1 where pr: "probe_comfyui_server E p w = (x, w1)"
    by (cases "probe_comfyui_server E p w")
  from assms pr obtain r where x: "x = Some r"
    by (cases x) (simp_all split: if_splits)
  from assms pr x that show ?thesis
    by (cases r) (simp_all split: if_splits)
qed

lemma wait_rounds_run:
  "wait_rounds E p st tmo n w = Some wn \<Longrightarrow>
     \<exists>evs. trace wn = trace w @ evs \<and> filter is_popen evs = []
       \<and> heap wn = heap w \<and> alive wn = alive w \<and> clock w + 1000 * n \<le> clock wn"
proof (induction n arbitrary: w)
  case 0
  then show ?case by simp
next
  case (Suc n)
  from Suc.prems obtain e w1 where s:
    "probe_comfyui_server E p w = (Some (Inl e), w1)"
    "wait_rounds E p st tmo n (sleep E 1 w1) = Some wn"
    by (rule wait_rounds_step)
  from probe_run[OF s(1)] obtain evs1 where evs1:
    "trace w1 = trace w @ evs1" "filter is_popen evs1 = []" "heap w1 = heap w" "alive w1 = alive w"
    "clock w \<le> clock w1"
    by blast
  from Suc.IH[OF s(2)] obtain evs where evs:
    "trace wn = trace (sleep E 1 w1) @ evs" "filter is_popen evs = []"
    "heap wn = heap (sleep E 1 w1)" "alive wn = alive (sleep E 1 w1)"
    "clock (sleep E 1 w1) + 1000 * n \<le> clock wn"
    by blast
  show ?case
    using evs evs1
    by (intro exI[of _ "evs1 @ EvSleep 1 # evs"]) auto
qed


lemma wait_loop_run:
  assumes "wait_loop E p st tmo w = (r, w')"
  shows "\<exists>evs. trace w' = trace w @ evs \<and> filter is_popen evs = []
     \<and> heap w' = heap w \<and> alive w' = alive w \<and> clock w \<le> clock w'
     \<and> (r = Some (Inr ()) \<longrightarrow>
          (\<exists>pre b b'. evs = pre @ [EvHttp (GET (mappings_url p)) (HttpBody b),
                                   EvHttp (GET (object_info_url p)) (HttpBody b')]))
     \<and> (\<forall>e. r = Some (Inl e) \<longrightarrow> e = TimeoutError ''ComfyUI server failed to start''
              \<and> tmo * 1000 \<le> int (clock w') - int st)"
proof -
  from wait_loop_outcome[of E p st tmo w] obtain n wn where n:
    "wait_rounds E p st tmo n w = Some wn"
    "if time_remains E st tmo wn then
          (case probe_comfyui_server E p wn of
             (None, w') \<Rightarrow> wait_loop E p st tmo w = (None, w')
           | (Some (Inr u), w') \<Rightarrow> wait_loop E p st tmo w = (Some (Inr ()), w')
           | (Some (Inl e), w') \<Rightarrow> False)
        else wait_loop E p st tmo w = (Some (Inl (TimeoutError ''ComfyUI server failed to start'')), wn)"
    by blast
  from wait_rounds_run[OF n(1)] obtain evs where evs:
    "trace wn = trace w @ evs" "filter is_popen evs = []"
    "heap wn = heap w" "alive wn = alive w" "clock w \<le> clock wn"
    by auto
  show ?thesis
  proof (cases "time_remains E st tmo wn")
    case False
    with n(2) assms have "w' = wn" "r = Some (Inl (TimeoutError ''ComfyUI server failed to start''))"
      by simp_all
    with evs deadline_passed[OF False] show ?thesis by auto
  next
    case True
    obtain x w1 where pr: "probe_comfyui_server E p wn = (x, w1)"
      by (cases "probe_comfyui_server E p wn")
    from probe_run[OF pr] obtain evs1 where evs1:
      "trace w1 = trace wn @ evs1" "filter is_popen evs1 = []" "heap w1 = heap wn"
      "alive w1 = alive wn" "clock wn \<le> clock w1"
      "x = Some (Inr ()) \<longrightarrow>
          (\<exists>b b'. evs1 = [EvHttp (GET (mappings_url p)) (HttpBody b),
                          EvHttp (GET (object_info_url p)) (HttpBody b')])"
      by blast
    show ?thesis
    proof (cases x)
      case None
      with n(2) True pr assms have "r = None" "w' = w1"
        by simp_all
      with evs evs1 show ?thesis
        by (intro exI[of _ "evs @ evs1"]) auto
    next
      case (Some r1)
      from n(2) True pr Some obtain u where u: "r1 = Inr u"
        by (cases r1) auto
      with n(2) True pr Some assms have rw: "r = Some (Inr ())" "w' = w1"
        by simp_all
      from evs1(6) Some u obtain b b' where
        "evs1 = [EvHttp (GET (mappings_url p)) (HttpBody b),
                 EvHttp (GET (object_info_url p)) (HttpBody b')]"
        by auto
      with evs evs1 rw show ?thesis
        by (intro exI[of _ "evs @ evs1"]) auto
    qed
  qed
qed

subsection \<open>Stopping and starting the server\<close>

lemma stop_not_running: "proc s = None \<Longrightarrow> stop E s w = (s, w)"
  by (simp add: stop_def)

lemma stop_running:
  assumes "proc s = Some c"
  shows "fst (stop E s w) = s\<lparr>proc := None\<rparr>"
    and "trace (snd (stop E s w)) = trace w @
           (if exits_in_time E (Suc (length (trace w))) 5 then [EvTerminate c, EvWait c 5 True]
            else [EvTerminate c, EvWait c 5 False, EvKill c])"
    and "c \<notin> set (alive (snd (stop E s w)))"
    and "clock (snd (stop E s w)) \<le> clock w + latency E (length (trace w)) + 5000
                                      + latency E (length (trace w) + 2)"
    and "clock w \<le> clock (snd (stop E s w))"
    and "heap (snd (stop E s w)) = heap w"
  using assms
  by (auto simp: stop_def proc_wait_def kill_def exits_in_time_def Let_def split: option.splits)

text \<open>
  C6. \<^verbatim>\<open>stop\<close> always leaves the server without a process handle. With no process it
  does nothing at all. With a process it sends the termination signal and waits up to five
  seconds; if the process has not exited by then it kills it; either way the process is no
  longer running and the wait has taken at most five seconds. A second \<^verbatim>\<open>stop\<close> then
  does nothing. (\<^verbatim>\<open>stop\<close> has no failure outcome at all.)
\<close>

theorem stop_contract:
  "fst (stop E s w) = s\<lparr>proc := None\<rparr>
   \<and> (case proc s of
        None \<Rightarrow> snd (stop E s w) = w
      | Some c \<Rightarrow>
          trace (snd (stop E s w)) = trace w @
            (if exits_in_time E (Suc (length (trace w))) 5 then [EvTerminate c, EvWait c 5 True]
             else [EvTerminate c, EvWait c 5 False, EvKill c])
          \<and> c \<notin> set (alive (snd (stop E s w)))
          \<and> clock (snd (stop E s w)) \<le> clock w + latency E (length (trace w)) + 5000
                                          + latency E (length (trace w) + 2))
   \<and> stop E (fst (stop E s w)) (snd (stop E s w)) = (fst (stop E s w), snd (stop E s w))"
proof (cases "proc s")
  case None
  then show ?thesis by (simp add: stop_not_running)
next
  case (Some c)
  have "stop E (s\<lparr>proc := None\<rparr>) w' = (s\<lparr>proc := None\<rparr>, w')" for w'
    by (simp add: stop_not_running)
  with Some stop_running[OF Some, where E=E and w=w] show ?thesis by simp
qed

theorem stop_contract_witness:
  "stop env_stubborn (server0\<lparr>proc := Some 4242\<rparr>) (world0\<lparr>alive := [4242]\<rparr>) =
     (server0,
      \<lparr>clock = 5000, trace = [EvTerminate 4242, EvWait 4242 5 False, EvKill 4242],
       heap = [JObj []], alive = []\<rparr>)
   \<and> stop env_stubborn server0
        \<lparr>clock = 5000, trace = [EvTerminate 4242, EvWait 4242 5 False, EvKill 4242],
         heap = [JObj []], alive = []\<rparr> =
     (server0,
      \<lparr>clock = 5000, trace = [EvTerminate 4242, EvWait 4242 5 False, EvKill 4242],
       heap = [JObj []], alive = []\<rparr>)"
proof -
  have run: "stop env_stubborn (server0\<lparr>proc := Some 4242\<rparr>) (world0\<lparr>alive := [4242]\<rparr>) =
     (server0,
      \<lparr>clock = 5000, trace = [EvTerminate 4242, EvWait 4242 5 False, EvKill 4242],
       heap = [JObj []], alive = []\<rparr>)"
    by (simp add: stop_def proc_wait_def kill_def tick_def env_stubborn_def env0_def server0_def
        world0_def)
  from stop_contract[of env_stubborn "server0\<lparr>proc := Some 4242\<rparr>" "world0\<lparr>alive := [4242]\<rparr>"]
  show ?thesis
    unfolding run by simp
qed

lemma start_running: "proc s = Some c \<Longrightarrow> start E s w = Some (Inr (), s, w)"
  by (simp add: start_def)

lemma start_diverges: "proc s = None \<Longrightarrow> find_port E s w = None \<Longrightarrow> start E s w = None"
  by (simp add: start_def)

lemma start_spawn_failed:
  "proc s = None \<Longrightarrow> find_port E s w = Some (s1, w1) \<Longrightarrow> spawn E (length (trace w1)) = Inl e \<Longrightarrow>
     start E s w = Some (Inl e, s1, tick E (popen_event s1 (Inl e)) w1)"
  by (simp add: start_def popen_def popen_event_def Let_def)

lemma start_blocked:
  "proc s = None \<Longrightarrow> find_port E s w = Some (s1, w1) \<Longrightarrow> spawn E (length (trace w1)) = Inr c \<Longrightarrow>
   wait_loop E (port s1) (clock (spawned E s1 c w1)) 1800 (spawned E s1 c w1) = (None, w3) \<Longrightarrow>
     start E s w = None"
  by (simp add: start_def popen_def popen_event_def spawned_def wait_for_startup_def Let_def)

lemma start_ready:
  "proc s = None \<Longrightarrow> find_port E s w = Some (s1, w1) \<Longrightarrow> spawn E (length (trace w1)) = Inr c \<Longrightarrow>
   wait_loop E (port s1) (clock (spawned E s1 c w1)) 1800 (spawned E s1 c w1) = (Some (Inr u), w3) \<Longrightarrow>
     start E s w = Some (Inr (), s1\<lparr>proc := Some c\<rparr>, w3)"
  by (simp add: start_def popen_def popen_event_def spawned_def wait_for_startup_def Let_def)

lemma start_timed_out:
  "proc s = None \<Longrightarrow> find_port E s w = Some (s1, w1) \<Longrightarrow> spawn E (length (trace w1)) = Inr c \<Longrightarrow>
   wait_loop E (port s1) (clock (spawned E s1 c w1)) 1800 (spawned E s1 c w1) = (Some (Inl e), w3) \<Longrightarrow>
     start E s w =
       Some (Inl (RuntimeError ''Failed to start ComfyUI server: '' e),
             fst (stop E (s1\<lparr>proc := Some c\<rparr>) w3), snd (stop E (s1\<lparr>proc := Some c\<rparr>) w3))"
  by (simp add: start_def popen_def popen_event_def spawned_def wait_for_startup_def Let_def
      case_prod_beta)

lemma start_cases [consumes 2, case_names spawn_failed ready timed_out]:
  assumes "proc s = None" "start E s w = Some (r, s', w')"
  obtains
    s1 w1 e where "find_port E s w = Some (s1, w1)" "spawn E (length (trace w1)) = Inl e"
      "r = Inl e" "s' = s1" "w' = tick E (popen_event s1 (Inl e)) w1"
  | s1 w1 c where "find_port E s w = Some (s1, w1)" "spawn E (length (trace w1)) = Inr c"
      "wait_loop E (port s1) (clock (spawned E s1 c w1)) 1800 (spawned E s1 c w1) = (Some (Inr ()), w')"
      "r = Inr ()" "s' = s1\<lparr>proc := Some c\<rparr>"
  | s1 w1 c e w3 where "find_port E s w = Some (s1, w1)" "spawn E (length (trace w1)) = Inr c"
      "wait_loop E (port s1) (clock (spawned E s1 c w1)) 1800 (spawned E s1 c w1) = (Some (Inl e), w3)"
      "r = Inl (RuntimeError ''Failed to start ComfyUI server: '' e)"
      "s' = fst (stop E (s1\<lparr>proc := Some c\<rparr>) w3)"
      "w' = snd (stop E (s1\<lparr>proc := Some c\<rparr>) w3)"
proof (cases "find_port E s w")
  case None
  with assms show ?thesis by (simp add: start_diverges)
next
  case (Some y)
  obtain s1 w1 where y: "y = (s1, w1)" by (cases y)
  note fp = Some[unfolded y]
  show ?thesis
  proof (cases "spawn E (length (trace w1))")
    case (Inl e)
    from start_spawn_failed[OF assms(1) fp Inl] assms(2) that(1)[OF fp Inl]
    show ?thesis by simp
  next
    case (Inr c)
    show ?thesis
    proof -
      obtain x w3 where wl0: "wait_loop E (port s1) (clock (spawned E s1 c w1)) 1800 (spawned E s1 c w1) = (x, w3)"
        by (cases "wait_loop E (port s1) (clock (spawned E s1 c w1)) 1800 (spawned E s1 c w1)")
      show ?thesis
      proof (cases x)
        case None
        from start_blocked[OF assms(1) fp Inr wl0[unfolded None]] assms(2) show ?thesis by simp
      next
        case (Some r3)
        note wl = wl0[unfolded Some]
        show ?thesis
        proof (cases r3)
          case (Inl e)
          define X where "X = stop E (s1\<lparr>proc := Some c\<rparr>) w3"
          from start_timed_out[OF assms(1) fp Inr wl[unfolded Inl]] assms(2)
          have "(r, s', w') = (Inl (RuntimeError ''Failed to start ComfyUI server: '' e), fst X, snd X)"
            by (simp add: X_def)
          then have "r = Inl (RuntimeError ''Failed to start ComfyUI server: '' e)" "s' = fst X" "w' = snd X"
            by (metis fst_conv snd_conv)+
          then show ?thesis
            using that(3)[OF fp Inr wl[unfolded Inl]] by (simp add: X_def)
        next
          case Inr2: (Inr u)
          from start_ready[OF assms(1) fp Inr wl[unfolded Inr2]] assms(2)
          have "r = Inr ()" "s' = s1\<lparr>proc := Some c\<rparr>" "w3 = w'"
            by simp_all
          with that(2)[OF fp Inr] wl Inr2 show ?thesis by simp
        qed
      qed
    qed
  qed
qed

lemma port_scan_events: "port_scan h p scan q \<Longrightarrow> filter is_popen scan = []"
proof (induction h p scan q rule: port_scan.induct)
  case (1 h p q)
  then show ?case by simp
next
  case (2 h p ev evs q)
  from "2.prems" obtain r where ev: "ev = EvConnect h p r"
    by (cases ev) auto
  show ?case
  proof (cases "r = Refused")
    case True
    with "2.prems" ev show ?thesis by simp
  next
    case False
    with "2.prems" ev obtain n rest where rest: "evs = EvRandint n # rest" "port_scan h n rest q"
      by (cases r; auto split: list.splits event.splits)
    have "filter is_popen rest = []"
      using False rest ev
      by (cases r) (auto intro: "2.IH")
    with ev rest show ?thesis by simp
  qed
qed

lemma popen_event_proc [simp]: "popen_event (s\<lparr>proc := x\<rparr>) r = popen_event s r"
  by (simp add: popen_event_def command_def stdio_of_def)

lemma popen_event_port: "s1 = s\<lparr>port := q\<rparr> \<Longrightarrow>
    popen_event s1 r = EvPopen (command s) (str_int q) (workspace s) (stdio_of s) (stdio_of s) r"
  by (simp add: popen_event_def command_def stdio_of_def)

text \<open>What a call of \<^verbatim>\<open>start\<close> on a stopped server logs: the port loop, the spawn, the rest.\<close>

lemma start_trace:
  assumes "proc s = None" "start E s w = Some (r, s', w')"
  shows "\<exists>scan res post.
      trace w' = trace w @ scan
                   @ EvPopen (command s) (str_int (port s')) (workspace s) (stdio_of s) (stdio_of s) res
                   # post
      \<and> port_scan (host s) (port s) scan (port s') \<and> filter is_popen post = []"
  using assms
proof (cases rule: start_cases)
  case (spawn_failed s1 w1 e)
  obtain scan where scan: "trace w1 = trace w @ scan" "port_scan (host s) (port s) scan (port s1)"
    "s1 = s\<lparr>port := port s1\<rparr>"
    using find_port_run[OF spawn_failed(1)] by auto
  show ?thesis
    using scan spawn_failed(4,5) popen_event_port[OF scan(3), of "Inl e"]
    by (intro exI[of _ scan] exI[of _ "Inl e"] exI[of _ "[]"]) simp
next
  case (ready s1 w1 c)
  let ?w2 = "spawned E s1 c w1"
  obtain scan where scan: "trace w1 = trace w @ scan" "port_scan (host s) (port s) scan (port s1)"
    "s1 = s\<lparr>port := port s1\<rparr>"
    using find_port_run[OF ready(1)] by auto
  obtain evs where evs: "trace w' = trace ?w2 @ evs" "filter is_popen evs = []"
    using wait_loop_run[OF ready(3)] by blast
  then show ?thesis
    using scan ready(5) popen_event_port[OF scan(3), of "Inr c"]
    by (intro exI[of _ scan] exI[of _ "Inr c"] exI[of _ evs]) (simp add: spawned_def)
next
  case (timed_out s1 w1 c e w3)
  let ?w2 = "spawned E s1 c w1"
  obtain scan where scan: "trace w1 = trace w @ scan" "port_scan (host s) (port s) scan (port s1)"
    "s1 = s\<lparr>port := port s1\<rparr>"
    using find_port_run[OF timed_out(1)] by auto
  obtain evs where evs: "trace w3 = trace ?w2 @ evs" "filter is_popen evs = []"
    using wait_loop_run[OF timed_out(3)] by blast
  have pr: "proc (s1\<lparr>proc := Some c\<rparr>) = Some c" by simp
  let ?stop = "if exits_in_time E (Suc (length (trace w3))) 5 then [EvTerminate c, EvWait c 5 True]
            else [EvTerminate c, EvWait c 5 False, EvKill c]"
  have st: "trace w' = trace w3 @ ?stop" "s' = s1\<lparr>proc := None\<rparr>"
    using stop_running(1,2)[OF pr, of E w3] timed_out(5,6) by simp_all
  show ?thesis
    using scan st evs popen_event_port[OF scan(3), of "Inr c"]
    by (intro exI[of _ scan] exI[of _ "Inr c"] exI[of _ "evs @ ?stop"]) (simp add: spawned_def)
qed

lemma port_scan_last:
  "port_scan h p scan q \<Longrightarrow> \<exists>pre. scan = pre @ [EvConnect h q Refused]"
proof (induction h p scan q rule: port_scan.induct)
  case (1 h p q)
  then show ?case by simp
next
  case (2 h p ev evs q)
  from "2.prems" obtain r where ev: "ev = EvConnect h p r"
    by (cases ev) auto
  show ?case
  proof (cases "r = Refused")
    case True
    with "2.prems" ev show ?thesis by simp
  next
    case False
    with "2.prems" ev obtain n rest where rest: "evs = EvRandint n # rest" "port_scan h n rest q"
      by (cases r; auto split: list.splits event.splits)
    have "\<exists>pre. rest = pre @ [EvConnect h q Refused]"
      using False rest ev
      by (cases r) (auto intro: "2.IH")
    then obtain pre where "rest = pre @ [EvConnect h q Refused]" ..
    with ev rest have "ev # evs = (ev # EvRandint n # pre) @ [EvConnect h q Refused]"
      by simp
    then show ?thesis by blast
  qed
qed

lemma str_int_12345: "str_int 12345 = ''12345''"
  by (simp add: str_int_def str_nat.simps digit_char_def)

lemma start_env0_run:
  "start env0 server0 world0 = Some (Inr (), server0\<lparr>proc := Some 4242\<rparr>, world_started)"
  by (simp add: start_def find_port.simps is_port_in_use_def popen_def command_def stdio_of_def
      wait_for_startup_def wait_loop.simps time_remains_def probe_comfyui_server_def urlopen_def
      mappings_url_def object_info_url_def str_int_8188 tick_def env0_def server0_def world0_def
      world_started_def Let_def)

lemma start_port_taken_run:
  "start env_port_taken (server0\<lparr>port := 45000\<rparr>) world0 =
     Some (Inr (), server0\<lparr>port := 12345, proc := Some 4242\<rparr>, world_port_taken)"
  by (simp add: start_def find_port.simps is_port_in_use_def randint_def popen_def command_def
      stdio_of_def wait_for_startup_def wait_loop.simps time_remains_def probe_comfyui_server_def
      urlopen_def mappings_url_def object_info_url_def str_int_12345 tick_def env_port_taken_def
      env0_def server0_def world0_def world_port_taken_def Let_def)

text \<open>
  C7. A call of \<^verbatim>\<open>start\<close> on a stopped server spawns the engine once, on the port the
  server ends up with, and what it did before the spawn is the port loop: every connect to
  an earlier candidate was not refused and was followed by a fresh draw, and the connect
  right before the spawn, to the port the engine is given, was refused.
\<close>

theorem start_spawns_on_free_port:
  assumes "proc s = None" and "start E s w = Some (r, s', w')"
  shows "\<exists>scan pre out err res post.
      trace w' = trace w @ scan @ EvPopen (command s) (str_int (port s')) (workspace s) out err res # post
      \<and> port_scan (host s) (port s) scan (port s')
      \<and> scan = pre @ [EvConnect (host s) (port s') Refused]
      \<and> filter is_popen scan = [] \<and> filter is_popen post = []"
proof -
  from start_trace[OF assms] obtain scan res post where t:
    "trace w' = trace w @ scan
       @ EvPopen (command s) (str_int (port s')) (workspace s) (stdio_of s) (stdio_of s) res # post"
    "port_scan (host s) (port s) scan (port s')" "filter is_popen post = []"
    by blast
  from port_scan_last[OF t(2)] obtain pre where "scan = pre @ [EvConnect (host s) (port s') Refused]" ..
  with t port_scan_events[OF t(2)] show ?thesis by blast
qed

theorem start_spawns_on_free_port_witness:
  "proc (server0\<lparr>port := 45000\<rparr>) = None
   \<and> start env_port_taken (server0\<lparr>port := 45000\<rparr>) world0 =
       Some (Inr (), server0\<lparr>port := 12345, proc := Some 4242\<rparr>, world_port_taken)
   \<and> (\<exists>scan pre out err res post.
        trace world_port_taken = trace world0 @ scan
           @ EvPopen (command (server0\<lparr>port := 45000\<rparr>))
               (str_int (port (server0\<lparr>port := 12345, proc := Some 4242\<rparr>)))
               (workspace (server0\<lparr>port := 45000\<rparr>)) out err res
           # post
        \<and> port_scan (host (server0\<lparr>port := 45000\<rparr>)) (port (server0\<lparr>port := 45000\<rparr>)) scan
             (port (server0\<lparr>port := 12345, proc := Some 4242\<rparr>))
        \<and> scan = pre @ [EvConnect (host (server0\<lparr>port := 45000\<rparr>))
                           (port (server0\<lparr>port := 12345, proc := Some 4242\<rparr>)) Refused]
        \<and> filter is_popen scan = [] \<and> filter is_popen post = [])"
proof -
  have a: "proc (server0\<lparr>port := 45000\<rparr>) = None"
    by (simp add: server0_def)
  from start_spawns_on_free_port[OF a start_port_taken_run] a start_port_taken_run
  show ?thesis
    by blast
qed

text \<open>
  C8. The one spawn of a call of \<^verbatim>\<open>start\<close> passes \<^verbatim>\<open>subprocess.PIPE\<close> for the standard
  output and the standard error of the engine when the verbosity is zero, and lets the
  engine inherit them otherwise. A pipe is not a discard sink (that is
  \<^verbatim>\<open>subprocess.DEVNULL\<close>): nothing in the module ever reads it.
\<close>

theorem start_redirects_output_to_pipes:
  assumes "proc s = None" and "start E s w = Some (r, s', w')"
  shows "\<exists>scan cp res post.
      trace w' = trace w @ scan
        @ EvPopen (command s) cp (workspace s)
            (if verbose s = 0 then PIPE else INHERIT) (if verbose s = 0 then PIPE else INHERIT) res
        # post
      \<and> filter is_popen (scan @ post) = []"
proof -
  from start_trace[OF assms] obtain scan res post where t:
    "trace w' = trace w @ scan
       @ EvPopen (command s) (str_int (port s')) (workspace s) (stdio_of s) (stdio_of s) res # post"
    "port_scan (host s) (port s) scan (port s')" "filter is_popen post = []"
    by blast
  have "stdio_of s = (if verbose s = 0 then PIPE else INHERIT)"
    by (simp add: stdio_of_def)
  with t port_scan_events[OF t(2)] show ?thesis by auto
qed

theorem start_redirects_output_to_pipes_witness:
  "proc server0 = None
   \<and> start env0 server0 world0 = Some (Inr (), server0\<lparr>proc := Some 4242\<rparr>, world_started)
   \<and> verbose server0 = 0
   \<and> (\<exists>scan cp res post.
        trace world_started = trace world0 @ scan
          @ EvPopen (command server0) cp (workspace server0) PIPE PIPE res # post
        \<and> filter is_popen (scan @ post) = [])"
proof -
  have a: "proc server0 = None" "verbose server0 = 0"
    by (simp_all add: server0_def)
  from start_redirects_output_to_pipes[OF a(1) start_env0_run] a
  have "\<exists>scan cp res post.
        trace world_started = trace world0 @ scan
          @ EvPopen (command server0) cp (workspace server0) PIPE PIPE res # post
        \<and> filter is_popen (scan @ post) = []"
    by simp
  with a start_env0_run show ?thesis
    by blast
qed

text \<open>
  C5 does not hold: a call of \<^verbatim>\<open>start\<close> that succeeds on a stopped server has probed
  both readiness endpoints before it returns.
\<close>

theorem start_probes_before_return:
  "start env0 server0 world0 = Some (Inr (), server0\<lparr>proc := Some 4242\<rparr>, world_started)
   \<and> proc server0 = None
   \<and> filter is_http (drop (length (trace world0)) (trace world_started)) =
       [EvHttp (GET ''http://127.0.0.1:8188/api/customnode/getmappings?mode=nickname'')
          (HttpBody (Some (JObj []))),
        EvHttp (GET ''http://127.0.0.1:8188/api/object_info'') (HttpBody (Some (JObj [])))]"
  by (simp add: start_env0_run) (simp add: server0_def world0_def world_started_def)

text \<open>
  C5, as the code has it. A call of \<^verbatim>\<open>start\<close> on a server that already has a process
  returns at once and does nothing. On a stopped server it returns successfully only
  after a probe in which both readiness endpoints answered: those two requests are the last
  things it did, and the server then holds the process handle.
\<close>

theorem start_returns_when_ready:
  assumes "start E s w = Some (Inr (), s', w')"
  shows "case proc s of
           Some c \<Rightarrow> s' = s \<and> w' = w
         | None \<Rightarrow>
             (\<exists>pre b b'. trace w' = trace w @ pre
                  @ [EvHttp (GET (mappings_url (port s'))) (HttpBody b),
                     EvHttp (GET (object_info_url (port s'))) (HttpBody b')])
             \<and> proc s' \<noteq> None"
proof (cases "proc s")
  case (Some c)
  with assms start_running[OF Some, of E w] show ?thesis by simp
next
  case None
  from None assms have "(\<exists>pre b b'. trace w' = trace w @ pre
                  @ [EvHttp (GET (mappings_url (port s'))) (HttpBody b),
                     EvHttp (GET (object_info_url (port s'))) (HttpBody b')])
             \<and> proc s' \<noteq> None"
  proof (cases rule: start_cases)
    case (spawn_failed s1 w1 e)
    then show ?thesis by simp
  next
    case (timed_out s1 w1 c e w3)
    then show ?thesis by simp
  next
    case (ready s1 w1 c)
    let ?w2 = "spawned E s1 c w1"
    obtain scan where scan: "trace w1 = trace w @ scan"
      using find_port_run[OF ready(1)] by auto
    obtain evs pre b b' where W: "trace w' = trace ?w2 @ evs"
      "evs = pre @ [EvHttp (GET (mappings_url (port s1))) (HttpBody b),
                    EvHttp (GET (object_info_url (port s1))) (HttpBody b')]"
      using wait_loop_run[OF ready(3)] by blast
    have "trace w' = trace w @ (scan @ popen_event s1 (Inr c) # pre)
                  @ [EvHttp (GET (mappings_url (port s'))) (HttpBody b),
                     EvHttp (GET (object_info_url (port s'))) (HttpBody b')]"
      using ready(5) W scan by (simp add: spawned_def)
    then have "\<exists>pre b b'. trace w' = trace w @ pre
                  @ [EvHttp (GET (mappings_url (port s'))) (HttpBody b),
                     EvHttp (GET (object_info_url (port s'))) (HttpBody b')]"
      by blast
    moreover have "proc s' \<noteq> None"
      using ready(5) by simp
    ultimately show ?thesis ..
  qed
  with None show ?thesis by simp
qed

theorem start_returns_when_ready_witness:
  "start env0 server0 world0 = Some (Inr (), server0\<lparr>proc := Some 4242\<rparr>, world_started)
   \<and> proc server0 = None
   \<and> (\<exists>pre b b'. trace world_started = trace world0 @ pre
         @ [EvHttp (GET (mappings_url (port (server0\<lparr>proc := Some 4242\<rparr>)))) (HttpBody b),
            EvHttp (GET (object_info_url (port (server0\<lparr>proc := Some 4242\<rparr>)))) (HttpBody b')])
   \<and> proc (server0\<lparr>proc := Some 4242\<rparr>) \<noteq> None"
proof -
  have a: "proc server0 = None"
    by (simp add: server0_def)
  from start_returns_when_ready[OF start_env0_run] a start_env0_run
  show ?thesis
    by simp
qed





lemma wait_rounds_never_ready:
  "wait_rounds env_never_ready 8188 2000000 1800 1
     (spawned env_never_ready server0 4242 world_port_checked) = Some world_gave_up
   \<and> clock (spawned env_never_ready server0 4242 world_port_checked) = 2000000
   \<and> \<not> time_remains env_never_ready 2000000 1800 world_gave_up"
  by (simp add: time_remains_def probe_comfyui_server_def urlopen_def mappings_url_def
      str_int_8188 spawned_def popen_event_def command_def stdio_of_def tick_def sleep_def
      env_never_ready_def env0_def server0_def world_port_checked_def world_gave_up_def)


subsection \<open>Executing a workflow on the server\<close>

lemma execute_workflow_timeout_run:
  "execute_workflow env_never_done server0 0 [] ''session'' 1 world0 =
     (Some (Inl (RuntimeError ''Workflow execution failed: ''
                   (TimeoutError ''Workflow execution timed out''))),
      world_job_timed_out)"
  by (simp add: execute_workflow_def mkdir_def run_workflow_def choose_output_dir_def deepcopy_def
      submit_and_poll_def urlopen_def submit_request_def prompt_url_def history_url_def
      format_value_def prompt_id_of_def poll_loop.simps time_remains_def outputs_ready_def
      str_int_8188 tick_def sleep_def env_never_done_def env0_def server0_def world0_def
      world_job_timed_out_def session_dir_def Let_def)

lemma reaches_submit_run:
  "reaches_submit env_never_done server0 0 [] ''session'' world0 =
     Some (JObj [], session_dir, world_job_ready)"
  by (simp add: reaches_submit_def mkdir_def populated_def tick_def env_never_done_def env0_def
      server0_def world0_def world_job_ready_def session_dir_def Let_def)

lemma poller_timeout_run:
  "submit_and_poll env_never_done ''127.0.0.1'' 8188 (JObj []) session_dir 1 world_job_ready =
     (Some (Inl (TimeoutError ''Workflow execution timed out'')), world_job_timed_out)"
  by (simp add: submit_and_poll_def urlopen_def submit_request_def prompt_url_def history_url_def
      format_value_def prompt_id_of_def poll_loop.simps time_remains_def outputs_ready_def
      str_int_8188 tick_def sleep_def env_never_done_def env0_def world_job_ready_def
      world_job_timed_out_def Let_def)

text \<open>
  C4 does not hold: the timeout of the completion poller does not leave
  \<^verbatim>\<open>execute_workflow\<close> as a \<^verbatim>\<open>TimeoutError\<close> but wrapped in a \<^verbatim>\<open>RuntimeError\<close>.
\<close>

theorem execute_workflow_wraps_timeout:
  "fst (execute_workflow env_never_done server0 0 [] ''session'' 1 world0) =
     Some (Inl (RuntimeError ''Workflow execution failed: ''
                  (TimeoutError ''Workflow execution timed out'')))
   \<and> \<not> isinstance_TimeoutError
         (RuntimeError ''Workflow execution failed: '' (TimeoutError ''Workflow execution timed out''))
   \<and> reaches_submit env_never_done server0 0 [] ''session'' world0 =
       Some (JObj [], session_dir, world_job_ready)
   \<and> submit_and_poll env_never_done ''127.0.0.1'' 8188 (JObj []) session_dir 1 world_job_ready =
       (Some (Inl (TimeoutError ''Workflow execution timed out'')), world_job_timed_out)"
  by (simp add: execute_workflow_timeout_run poller_timeout_run reaches_submit_run)

text \<open>
  C4, as the code has it. Whenever \<^verbatim>\<open>execute_workflow\<close> reaches the submission and the
  submit and poll stage of \<^verbatim>\<open>run_workflow\<close> (its \<^verbatim>\<open>try\<close> block) raises a failure \<open>e0\<close>,
  \<^verbatim>\<open>run_workflow\<close> re-raises it, unmodified if it is a \<^verbatim>\<open>TimeoutError\<close> and wrapped in
  a \<^verbatim>\<open>RuntimeError\<close> otherwise, and \<^verbatim>\<open>execute_workflow\<close> raises a \<^verbatim>\<open>RuntimeError\<close> of
  its own that wraps whatever \<^verbatim>\<open>run_workflow\<close> raised. Nothing passes through
  unmodified, and nothing else happens after the failure.
\<close>

theorem execute_workflow_wraps_every_stage_failure:
  assumes "reaches_submit E s workflow inputs session_id w = Some (content, d, w3)"
    and "submit_and_poll E (host s) (port s) content d tmo w3 = (Some (Inl e0), w')"
  shows "execute_workflow E s workflow inputs session_id tmo w =
     (Some (Inl (RuntimeError ''Workflow execution failed: ''
                   (if isinstance_TimeoutError e0 then e0
                    else RuntimeError ''Workflow execution failed: '' e0))),
      w')"
proof -
  let ?U = "if session_id = [] then uuid_str E w else (session_id, w)"
  let ?d = "PathJoin (PathJoin (workspace s) ''output'') (fst ?U)"
  let ?M = "mkdir E ?d (snd ?U)"
  let ?w2 = "snd ?M"
  let ?pop = "populate_workflow E (length (trace ?w2)) (heap ?w2 ! workflow) ?d inputs"
  from assms(1) have m: "fst ?M = None"
    by (cases "fst ?M") (simp_all add: reaches_submit_def Let_def case_prod_beta)
  from assms(1) m have k: "\<not> (\<exists>k \<in> set (map fst inputs).
                       k \<in> set [''host'', ''port'', ''workflow'', ''output_dir'', ''timeout'',
                                ''verbose'', ''workspace''])"
    by (auto simp: reaches_submit_def Let_def case_prod_beta split: if_splits)
  from assms(1) m k have p: "snd ?pop = Inr content" "d = ?d" "w3 = populated E ?d inputs workflow ?w2"
    by (cases "snd ?pop"; simp add: reaches_submit_def Let_def case_prod_beta)+
  have R: "run_workflow E (host s) (port s) workflow (Some ?d) tmo (verbose s) (workspace s) inputs ?w2
      = (Some (Inl (reraise e0)), w')"
    using p assms(2) by (simp add: run_workflow_unfold choose_output_dir_def)
  show ?thesis
    using m k R by (simp add: execute_workflow_def Let_def case_prod_beta reraise_def)
qed

lemma rejected_run:
  "submit_and_poll env_no_prompt_id (host server0) (port server0) (JObj []) session_dir 300 world_job_ready =
     (Some (Inl (KeyError ''prompt_id'')), world_job_rejected)"
  by (simp add: submit_and_poll_def urlopen_def submit_request_def prompt_url_def prompt_id_of_def
      str_int_8188 tick_def env_no_prompt_id_def env0_def server0_def world_job_ready_def
      world_job_rejected_def Let_def)

lemma reaches_submit_rejected:
  "reaches_submit env_no_prompt_id server0 0 [] ''session'' world0 =
     Some (JObj [], session_dir, world_job_ready)"
  by (simp add: reaches_submit_def mkdir_def populated_def tick_def env_no_prompt_id_def env0_def
      server0_def world0_def world_job_ready_def session_dir_def Let_def)

theorem execute_workflow_wraps_every_stage_failure_witness:
  "reaches_submit env_no_prompt_id server0 0 [] ''session'' world0 =
     Some (JObj [], session_dir, world_job_ready)
   \<and> submit_and_poll env_no_prompt_id (host server0) (port server0) (JObj []) session_dir 300
        world_job_ready = (Some (Inl (KeyError ''prompt_id'')), world_job_rejected)
   \<and> execute_workflow env_no_prompt_id server0 0 [] ''session'' 300 world0 =
       (Some (Inl (RuntimeError ''Workflow execution failed: ''
                     (RuntimeError ''Workflow execution failed: '' (KeyError ''prompt_id'')))),
        world_job_rejected)
   \<and> execute_workflow env_never_done server0 0 [] ''session'' 1 world0 =
       (Some (Inl (RuntimeError ''Workflow execution failed: ''
                     (TimeoutError ''Workflow execution timed out''))),
        world_job_timed_out)"
proof -
  from execute_workflow_wraps_every_stage_failure[OF reaches_submit_rejected rejected_run]
  have a: "execute_workflow env_no_prompt_id server0 0 [] ''session'' 300 world0 =
       (Some (Inl (RuntimeError ''Workflow execution failed: ''
                     (RuntimeError ''Workflow execution failed: '' (KeyError ''prompt_id'')))),
        world_job_rejected)"
    by simp
  have "submit_and_poll env_never_done (host server0) (port server0) (JObj []) session_dir 1 world_job_ready =
     (Some (Inl (TimeoutError ''Workflow execution timed out'')), world_job_timed_out)"
    using poller_timeout_run by (simp add: server0_def)
  from execute_workflow_wraps_every_stage_failure[OF reaches_submit_run this]
  have b: "execute_workflow env_never_done server0 0 [] ''session'' 1 world0 =
       (Some (Inl (RuntimeError ''Workflow execution failed: ''
                     (TimeoutError ''Workflow execution timed out''))),
        world_job_timed_out)"
    by simp
  from a b reaches_submit_rejected rejected_run show ?thesis
    by blast
qed

end
